theory Spec2Isabelle
  imports Main
begin

section \<open>Python strings\<close>

text \<open>
  A Python \<open>str\<close> is modelled as a \<open>string\<close> whose characters are the code points
  0 to 255. The string methods that \<open>migrate.py\<close> calls are written out below with
  Python's results on that range.
\<close>

text \<open>\<open>str.isspace\<close> of one character: tab to carriage return, the four separators
  0x1C to 0x1F, the blank, NEL (0x85) and the no-break space (0xA0).\<close>

definition isspace :: "char \<Rightarrow> bool" where
  "isspace c =
     (let n = (of_char c :: nat)
      in (9 \<le> n \<and> n \<le> 13) \<or> (28 \<le> n \<and> n \<le> 32) \<or> n = 133 \<or> n = 160)"

text \<open>\<open>s.strip()\<close>: leading and trailing whitespace removed.\<close>

definition strip :: "string \<Rightarrow> string" where
  "strip s = rev (dropWhile isspace (rev (dropWhile isspace s)))"

text \<open>\<open>s.startswith(p)\<close> and \<open>s.endswith(p)\<close>.\<close>

definition startswith :: "string \<Rightarrow> string \<Rightarrow> bool" where
  "startswith s p = (take (length p) s = p)"

definition endswith :: "string \<Rightarrow> string \<Rightarrow> bool" where
  "endswith s p = (length p \<le> length s \<and> drop (length s - length p) s = p)"

text \<open>\<open>s.split(sep)\<close> for a one-character separator: the fields between the
  separators, empty fields kept, so the result is never empty.\<close>

fun split_acc :: "char \<Rightarrow> string \<Rightarrow> string \<Rightarrow> string list" where
  "split_acc sep acc [] = [rev acc]"
| "split_acc sep acc (c # cs) =
     (if c = sep then rev acc # split_acc sep [] cs else split_acc sep (c # acc) cs)"

definition split_sep :: "string \<Rightarrow> char \<Rightarrow> string list" where
  "split_sep s sep = split_acc sep [] s"

section \<open>The bulk input file\<close>

text \<open>
  The body of the loop \<open>for line in f\<close> of the bulk mode: \<open>None\<close> when the line is
  skipped (\<open>continue\<close>, or a number of fields other than two), \<open>Some\<close> of the pair
  appended to \<open>repo_list\<close> otherwise.
\<close>

definition parse_line :: "string \<Rightarrow> (string \<times> string) option" where
  "parse_line raw =
     (let line = strip raw in
      if line = [] \<or> startswith line ''#'' then None
      else (let parts = map strip (split_sep line CHR '','') in
            if length parts = 2 then Some (parts ! 0, parts ! 1) else None))"

text \<open>The loop itself, over the lines of the file, with \<open>repo_list\<close> as accumulator.\<close>

fun read_repo_list :: "(string \<times> string) list \<Rightarrow> string list \<Rightarrow> (string \<times> string) list" where
  "read_repo_list repo_list [] = repo_list"
| "read_repo_list repo_list (line # f) =
     (case parse_line line of
        None \<Rightarrow> read_repo_list repo_list f
      | Some entry \<Rightarrow> read_repo_list (repo_list @ [entry]) f)"

section \<open>More Python strings\<close>

text \<open>\<open>s.lower()\<close>: the capital letters A to Z and the capital letters of Latin-1
  (0xC0 to 0xDE but the multiplication sign 0xD7) go to their small letters.\<close>

definition lower_char :: "char \<Rightarrow> char" where
  "lower_char c =
     (let n = (of_char c :: nat)
      in if (65 \<le> n \<and> n \<le> 90) \<or> (192 \<le> n \<and> n \<le> 222 \<and> n \<noteq> 215)
         then char_of (n + 32) else c)"

definition lower :: "string \<Rightarrow> string" where
  "lower s = map lower_char s"

text \<open>\<open>s.replace(old, new)\<close> for a non-empty \<open>old\<close> (in \<open>migrate.py\<close> it is always
  \<open>"https://"\<close>): every occurrence, found from the left and not overlapping, is replaced.\<close>

function replace :: "string \<Rightarrow> string \<Rightarrow> string \<Rightarrow> string" where
  "replace [] old new = []"
| "replace (c # cs) old new =
     (if old \<noteq> [] \<and> startswith (c # cs) old
      then new @ replace (drop (length old) (c # cs)) old new
      else c # replace cs old new)"
  by pat_completeness auto
termination
  by (relation "measure (\<lambda>(s, old, new). length s)") auto

text \<open>\<open>s.find(sub)\<close>: the index of the first occurrence of \<open>sub\<close>, or \<open>-1\<close>. The
  second argument of \<open>find_from\<close> is the index of the head of the list.\<close>

fun find_from :: "string \<Rightarrow> nat \<Rightarrow> string \<Rightarrow> int" where
  "find_from [] i sub = (if sub = [] then int i else - 1)"
| "find_from (c # cs) i sub =
     (if startswith (c # cs) sub then int i else find_from cs (Suc i) sub)"

definition find_str :: "string \<Rightarrow> string \<Rightarrow> int" where
  "find_str s sub = find_from s 0 sub"

text \<open>\<open>str(n)\<close> of a natural number: its decimal digits.\<close>

fun str_nat :: "nat \<Rightarrow> string" where
  "str_nat n =
     (if n < 10 then [char_of (48 + n)]
      else str_nat (n div 10) @ [char_of (48 + n mod 10)])"

declare str_nat.simps [simp del]

text \<open>\<open>urllib.parse.quote(s, safe="")\<close>: letters, digits and \<open>_ . - ~\<close> are kept, every
  other character is replaced by the \<open>%XX\<close> escapes of the bytes of its UTF-8 encoding.\<close>

definition hexdigit :: "nat \<Rightarrow> char" where
  "hexdigit d = (if d < 10 then char_of (48 + d) else char_of (55 + d))"

definition quote_byte :: "nat \<Rightarrow> string" where
  "quote_byte b = [CHR ''%'', hexdigit (b div 16), hexdigit (b mod 16)]"

definition unreserved :: "char \<Rightarrow> bool" where
  "unreserved c =
     (let n = (of_char c :: nat)
      in (65 \<le> n \<and> n \<le> 90) \<or> (97 \<le> n \<and> n \<le> 122) \<or> (48 \<le> n \<and> n \<le> 57)
         \<or> c = CHR ''_'' \<or> c = CHR ''.'' \<or> c = CHR ''-'' \<or> c = CHR ''~'')"

definition quote_char :: "char \<Rightarrow> string" where
  "quote_char c =
     (let n = (of_char c :: nat)
      in if unreserved c then [c]
         else if n < 128 then quote_byte n
         else quote_byte (192 + n div 64) @ quote_byte (128 + n mod 64))"

definition quote :: "string \<Rightarrow> string" where
  "quote s = concat (map quote_char s)"

text \<open>Truth value and \<open>str()\<close> of a value that is a string or \<open>None\<close>.\<close>

definition truthy :: "string option \<Rightarrow> bool" where
  "truthy x = (case x of None \<Rightarrow> False | Some s \<Rightarrow> s \<noteq> [])"

definition py_str :: "string option \<Rightarrow> string" where
  "py_str x = (case x of None \<Rightarrow> ''None'' | Some s \<Rightarrow> s)"

text \<open>The single quote, for the log messages that hold one.\<close>

definition sq :: string where
  "sq = [CHR 0x27]"

section \<open>Effects: the trace of a run and its result\<close>

text \<open>
  Every exception of the model is an instance of Python's \<open>Exception\<close>. The only class
  the program names in an \<open>except\<close> clause is \<open>GitCommandError\<close>; every other one
  (a connection error of \<open>requests\<close>, a JSON decoding error, a \<open>KeyError\<close>, an
  \<open>OSError\<close>) is an \<open>OtherException\<close>. The string is \<open>str(e)\<close>.
\<close>

datatype exn = GitCommandError string | OtherException string

fun exn_str :: "exn \<Rightarrow> string" where
  "exn_str (GitCommandError m) = m"
| "exn_str (OtherException m) = m"

datatype 'a outcome = Returns 'a | Raises exn

datatype level = INFO | WARNING | ERROR

text \<open>The values of the JSON payloads the program sends.\<close>

datatype json = JNull | JBool bool | JStr string

fun json_str :: "string option \<Rightarrow> json" where
  "json_str None = JNull"
| "json_str (Some s) = JStr s"

text \<open>The endpoints the program calls, and the URL of each.\<close>

datatype endpoint =
    GitlabReleases string
  | UserRepos
  | OrgRepos string
  | RepoReleases string string
  | TeamRepos string string string
  | RepoSettings string string
  | AuthUser

definition GITHUB_API_URL :: string where
  "GITHUB_API_URL = ''https://api.github.com''"

definition GITLAB_API_URL :: string where
  "GITLAB_API_URL = ''https://gitlab.com/api/v4''"

fun url_of :: "endpoint \<Rightarrow> string" where
  "url_of (GitlabReleases project_path_encoded) =
     GITLAB_API_URL @ ''/projects/'' @ project_path_encoded @ ''/releases''"
| "url_of UserRepos = GITHUB_API_URL @ ''/user/repos''"
| "url_of (OrgRepos owner_name) = GITHUB_API_URL @ ''/orgs/'' @ owner_name @ ''/repos''"
| "url_of (RepoReleases gh_owner repo_name) =
     GITHUB_API_URL @ ''/repos/'' @ gh_owner @ ''/'' @ repo_name @ ''/releases''"
| "url_of (TeamRepos org team_slug repo_name) =
     GITHUB_API_URL @ ''/orgs/'' @ org @ ''/teams/'' @ team_slug @ ''/repos/'' @ org @ ''/''
       @ repo_name"
| "url_of (RepoSettings gh_owner repo_name) =
     GITHUB_API_URL @ ''/repos/'' @ gh_owner @ ''/'' @ repo_name"
| "url_of AuthUser = GITHUB_API_URL @ ''/user''"

text \<open>
  What a run does to the world, in order: a log record, an HTTP request (endpoint,
  headers and, but for GET, the JSON payload), a git command on a local repository, and
  the file system operations of the cleanup. \<open>Retry p\<close> is the call \<open>func(path)\<close> of
  the retry callback.
\<close>

datatype event =
    Log level string
  | HttpGet endpoint "(string \<times> string) list"
  | HttpPost endpoint "(string \<times> string) list" "(string \<times> json) list"
  | HttpPut endpoint "(string \<times> string) list" "(string \<times> json) list"
  | HttpPatch endpoint "(string \<times> string) list" "(string \<times> json) list"
  | GitCloneFrom string string
  | GitFetchAll string
  | GitShowRef string
  | RepoOpen string
  | GitRemotes string
  | GitCreateRemote string string string
  | GitSetUrl string string string
  | GitPushMirror string string
  | RmTree string
  | Chmod string
  | Sleep
  | Retry string
  | IsDir string

text \<open>A computation: the events it caused, and its value or the exception it raised.\<close>

type_synonym 'a io = "event list \<times> 'a outcome"

definition ret :: "'a \<Rightarrow> 'a io" where
  "ret x = ([], Returns x)"

definition raise_exn :: "exn \<Rightarrow> 'a io" where
  "raise_exn e = ([], Raises e)"

definition log :: "level \<Rightarrow> string \<Rightarrow> unit io" where
  "log l m = ([Log l m], Returns ())"

text \<open>A call that leaves the program: the event, and what the world answers.\<close>

definition perform :: "event \<Rightarrow> 'a outcome \<Rightarrow> 'a io" where
  "perform e r = ([e], r)"

definition io_bind :: "'a io \<Rightarrow> ('a \<Rightarrow> 'b io) \<Rightarrow> 'b io" where
  "io_bind m f =
     (case m of
        (t, Raises e) \<Rightarrow> (t, Raises e)
      | (t, Returns x) \<Rightarrow> (case f x of (t', r) \<Rightarrow> (t @ t', r)))"

definition io_seq :: "'a io \<Rightarrow> 'b io \<Rightarrow> 'b io" where
  "io_seq m n = io_bind m (\<lambda>_. n)"

text \<open>\<open>try: m except Exception as e: h e\<close>. A handler for one class re-raises the
  exceptions of the other classes.\<close>

definition try_except :: "'a io \<Rightarrow> (exn \<Rightarrow> 'a io) \<Rightarrow> 'a io" where
  "try_except m h =
     (case m of
        (t, Raises e) \<Rightarrow> (case h e of (t', r) \<Rightarrow> (t @ t', r))
      | (t, Returns x) \<Rightarrow> (t, Returns x))"

text \<open>\<open>try: m finally: c\<close>, where the block \<open>c\<close> neither returns nor breaks: the
  result of \<open>m\<close> stands unless \<open>c\<close> raises. The block is given the result of \<open>m\<close>.\<close>

definition try_finally :: "'a io \<Rightarrow> ('a outcome \<Rightarrow> unit io) \<Rightarrow> 'a io" where
  "try_finally m c =
     (case m of (t, r) \<Rightarrow>
        (case c r of
           (t', Returns _) \<Rightarrow> (t @ t', r)
         | (t', Raises e) \<Rightarrow> (t @ t', Raises e)))"

section \<open>The world of one job\<close>

record config =
  GITLAB_TOKEN :: string
  GITHUB_TOKEN :: string

text \<open>A response of \<open>requests\<close>: \<open>resp.status_code\<close>, \<open>resp.text\<close>, and what
  \<open>resp.json()\<close> does.\<close>

record 'j response =
  status_code :: nat
  resp_text :: string
  resp_json :: "'j outcome"

text \<open>A JSON object whose values are strings (the fields the program reads are).\<close>

type_synonym json_object = "(string \<times> string) list"

text \<open>One release of the list GitLab returns: what \<open>gr.get("tag_name")\<close>,
  \<open>gr.get("name")\<close> and \<open>gr.get("description")\<close> give.\<close>

record gitlab_release =
  gr_tag_name :: "string option"
  gr_name :: "string option"
  gr_description :: "string option"

text \<open>One failing operation inside \<open>shutil.rmtree\<close>: the path and the error handed to
  the callback, and what \<open>os.chmod\<close> and the retried operation do.\<close>

record rm_error =
  err_path :: string
  err_exc :: string
  chmod_outcome :: "unit outcome"
  retry_outcome :: "unit outcome"

text \<open>What the platforms answer to the calls made for one release.\<close>

record release_world =
  rel_identity :: "json_object response outcome"
  rel_post :: "json_object response outcome"

text \<open>
  Everything outside the program that one call of \<open>migrate_repository\<close> meets: the
  clock, git, the two platforms and the file system. \<open>clock\<close> is \<open>int(time.time())\<close>;
  \<open>release_worlds i\<close> answers the calls made for the release of index \<open>i\<close>;
  \<open>rmtree_errors\<close> lists the operations that fail inside \<open>shutil.rmtree\<close>, in order.
\<close>

record job_world =
  clock :: nat
  clone_from_result :: "unit outcome"
  fetch_result :: "unit outcome"
  show_ref_result :: "string outcome"
  create_repo_response :: "json_object response outcome"
  open_repo_result :: "unit outcome"
  remotes_result :: "string list outcome"
  set_remote_result :: "unit outcome"
  push_result :: "unit outcome"
  releases_response :: "gitlab_release list response outcome"
  release_worlds :: "nat \<Rightarrow> release_world"
  settings_identity :: "json_object response outcome"
  settings_response :: "json_object response outcome"
  team_response :: "json_object response outcome"
  rmtree_errors :: "rm_error list"
  is_dir_result :: "bool outcome"

section \<open>The functions of \<open>migrate.py\<close>\<close>

text \<open>The \<open>headers\<close> dictionaries of the requests to GitHub and to GitLab.\<close>

definition github_headers :: "config \<Rightarrow> (string \<times> string) list" where
  "github_headers cfg =
     [(''Accept'', ''application/vnd.github.v3+json''),
      (''Authorization'', ''token '' @ GITHUB_TOKEN cfg)]"

definition gitlab_headers :: "config \<Rightarrow> (string \<times> string) list" where
  "gitlab_headers cfg =
     [(''Private-Token'', GITLAB_TOKEN cfg), (''Accept'', ''application/json'')]"

text \<open>\<open>resp.json()\<close>: no event, the value or the exception of the response.\<close>

definition json_of :: "'j response \<Rightarrow> 'j io" where
  "json_of resp = ([], resp_json resp)"

subsection \<open>The retry callback and the removal of the clone directory\<close>

text \<open>\<open>on_rm_error(func, path, exc_info)\<close>; the record holds \<open>path\<close>,
  \<open>exc_info[1]\<close> and what \<open>os.chmod(path, ...)\<close> and \<open>func(path)\<close> do.\<close>

definition on_rm_error :: "rm_error \<Rightarrow> unit io" where
  "on_rm_error err =
     io_seq (log WARNING (''on_rm_error called for '' @ err_path err @ '', error=''
               @ err_exc err))
    (io_seq (try_except (perform (Chmod (err_path err)) (chmod_outcome err))
               (\<lambda>e. log WARNING (''Could not remove read-only from '' @ err_path err @ '': ''
                       @ exn_str e)))
    (io_seq (perform Sleep (Returns ()))
            (try_except (perform (Retry (err_path err)) (retry_outcome err))
               (\<lambda>e. io_seq (log ERROR (''Retry failed to remove '' @ err_path err @ '': ''
                               @ exn_str e))
                             (raise_exn e)))))"

text \<open>\<open>shutil.rmtree(path, onerror=on_rm_error)\<close>: each failing operation is handed
  to the callback; the removal goes on when the callback returns and ends with the
  callback's exception when it raises.\<close>

fun rmtree_onerror :: "rm_error list \<Rightarrow> unit io" where
  "rmtree_onerror [] = ret ()"
| "rmtree_onerror (err # errs) = io_seq (on_rm_error err) (rmtree_onerror errs)"

definition rmtree :: "string \<Rightarrow> rm_error list \<Rightarrow> unit io" where
  "rmtree path errs = io_seq (perform (RmTree path) (Returns ())) (rmtree_onerror errs)"

subsection \<open>Helper functions\<close>

definition parse_gitlab_project_path :: "string \<Rightarrow> string" where
  "parse_gitlab_project_path gitlab_url =
     (let pre = ''https://gitlab.com/'';
          project_path =
            (if startswith gitlab_url pre then drop (length pre) gitlab_url
             else (let idx = find_str gitlab_url ''gitlab.com/''
                   in if idx \<noteq> - 1
                      then drop (nat (idx + int (length ''gitlab.com/''))) gitlab_url
                      else gitlab_url));
          project_path =
            (if endswith project_path ''.git''
             then take (length project_path - 4) project_path else project_path)
      in quote project_path)"

definition get_gitlab_releases ::
  "config \<Rightarrow> gitlab_release list response outcome \<Rightarrow> string \<Rightarrow> gitlab_release list io" where
  "get_gitlab_releases cfg answer project_path_encoded =
     io_bind (perform (HttpGet (GitlabReleases project_path_encoded) (gitlab_headers cfg)) answer)
       (\<lambda>resp.
          if status_code resp = 200 then json_of resp
          else io_seq (log WARNING (''Could not fetch GitLab releases: '' @ resp_text resp))
                      (ret []))"

definition create_github_repo ::
  "config \<Rightarrow> json_object response outcome \<Rightarrow> string \<Rightarrow> string \<Rightarrow> string option \<Rightarrow> bool \<Rightarrow> string
     \<Rightarrow> string option io" where
  "create_github_repo cfg answer repo_name owner_type owner_name private description =
     (let request = (\<lambda>url.
            io_bind (perform (HttpPost url (github_headers cfg)
                               [(''name'', JStr repo_name), (''private'', JBool private),
                                (''description'', JStr description),
                                (''auto_init'', JBool False)])
                       answer)
              (\<lambda>response.
                 if status_code response = 201
                 then io_bind (json_of response)
                        (\<lambda>repo_info.
                           io_seq (log INFO (''GitHub repository '' @ sq @ repo_name @ sq
                                     @ '' created successfully.''))
                             (case map_of repo_info ''clone_url'' of
                                None \<Rightarrow> raise_exn (OtherException (sq @ ''clone_url'' @ sq))
                              | Some clone_url \<Rightarrow> ret (Some clone_url)))
                 else io_seq (log ERROR (''Failed to create GitHub repo '' @ sq @ repo_name @ sq
                                @ '': '' @ resp_text response))
                             (ret None)))
      in if lower owner_type = ''org''
         then (if \<not> truthy owner_name
               then io_seq (log ERROR (''No organization name provided for owner_type='' @ sq
                              @ ''org'' @ sq @ ''.''))
                           (ret None)
               else request (OrgRepos (py_str owner_name)))
         else request UserRepos)"

definition get_authenticated_username ::
  "config \<Rightarrow> json_object response outcome \<Rightarrow> string option io" where
  "get_authenticated_username cfg answer =
     io_bind (perform (HttpGet AuthUser (github_headers cfg)) answer)
       (\<lambda>resp.
          if status_code resp = 200
          then io_bind (json_of resp) (\<lambda>user. ret (map_of user ''login''))
          else ret None)"

definition create_github_release ::
  "config \<Rightarrow> release_world \<Rightarrow> string \<Rightarrow> string option \<Rightarrow> string \<Rightarrow> string option
     \<Rightarrow> string option \<Rightarrow> string \<Rightarrow> json_object option io" where
  "create_github_release cfg rw owner_type owner_name repo_name tag_name release_name body =
     (let request = (\<lambda>gh_owner.
            io_bind (perform (HttpPost (RepoReleases (py_str gh_owner) repo_name)
                               (github_headers cfg)
                               [(''tag_name'', json_str tag_name),
                                (''name'', json_str release_name),
                                (''body'', JStr body), (''draft'', JBool False),
                                (''prerelease'', JBool False)])
                       (rel_post rw))
              (\<lambda>r.
                 if status_code r = 201 \<or> status_code r = 200
                 then io_seq (log INFO (''GitHub release created for tag '' @ sq
                                @ py_str tag_name @ sq @ '' with name '' @ sq
                                @ py_str release_name @ sq @ ''.''))
                             (io_bind (json_of r) (\<lambda>j. ret (Some j)))
                 else io_seq (log WARNING (''Failed to create GitHub release for tag '' @ sq
                                @ py_str tag_name @ sq @ '': '' @ resp_text r))
                             (ret None)))
      in if lower owner_type = ''org'' then request owner_name
         else if truthy owner_name then request owner_name
         else io_bind (get_authenticated_username cfg (rel_identity rw))
                (\<lambda>gh_owner.
                   if \<not> truthy gh_owner
                   then io_seq (log ERROR
                                  ''Could not determine GitHub username to create release.'')
                               (ret None)
                   else request gh_owner))"

text \<open>The body of the loop \<open>for gr in gitlab_releases\<close>, and the loop; the number
  is the index of the head of the list.\<close>

definition copy_release ::
  "config \<Rightarrow> release_world \<Rightarrow> string \<Rightarrow> string option \<Rightarrow> string \<Rightarrow> gitlab_release
     \<Rightarrow> json_object option io" where
  "copy_release cfg rw owner_type owner_name repo_name gr =
     (let tag_name = gr_tag_name gr;
          release_name = (if truthy (gr_name gr) then gr_name gr else tag_name);
          description = (if truthy (gr_description gr) then py_str (gr_description gr) else [])
      in create_github_release cfg rw owner_type owner_name repo_name tag_name release_name
           description)"

fun copy_releases_loop ::
  "config \<Rightarrow> (nat \<Rightarrow> release_world) \<Rightarrow> string \<Rightarrow> string option \<Rightarrow> string \<Rightarrow> nat
     \<Rightarrow> gitlab_release list \<Rightarrow> unit io" where
  "copy_releases_loop cfg rws owner_type owner_name repo_name i [] = ret ()"
| "copy_releases_loop cfg rws owner_type owner_name repo_name i (gr # rest) =
     io_seq (copy_release cfg (rws i) owner_type owner_name repo_name gr)
            (copy_releases_loop cfg rws owner_type owner_name repo_name (Suc i) rest)"

definition copy_gitlab_releases_to_github ::
  "config \<Rightarrow> job_world \<Rightarrow> string \<Rightarrow> string \<Rightarrow> string option \<Rightarrow> string \<Rightarrow> unit io" where
  "copy_gitlab_releases_to_github cfg w gitlab_url owner_type owner_name repo_name =
     (let project_path_encoded = parse_gitlab_project_path gitlab_url
      in io_bind (get_gitlab_releases cfg (releases_response w) project_path_encoded)
           (\<lambda>gitlab_releases.
              if gitlab_releases = []
              then log INFO
                     ''No GitLab releases found (or not accessible). Skipping release copy.''
              else io_seq (log INFO (''Found '' @ str_nat (length gitlab_releases)
                             @ '' GitLab release(s). Creating them on GitHub...''))
                          (copy_releases_loop cfg (release_worlds w) owner_type owner_name
                             repo_name 0 gitlab_releases)))"

definition add_default_access_permissions ::
  "config \<Rightarrow> json_object response outcome \<Rightarrow> string \<Rightarrow> string \<Rightarrow> string \<Rightarrow> string \<Rightarrow> unit io" where
  "add_default_access_permissions cfg answer org repo_name team_slug permission =
     io_bind (perform (HttpPut (TeamRepos org team_slug repo_name) (github_headers cfg)
                        [(''permission'', JStr permission)])
                answer)
       (\<lambda>response.
          if status_code response = 200 \<or> status_code response = 201
          then log INFO (''Default access permissions set for team '' @ sq @ team_slug @ sq
                  @ '' on repo '' @ sq @ repo_name @ sq @ ''.'')
          else log WARNING (''Could not set default access permissions: ''
                  @ resp_text response))"

definition update_github_repo_settings ::
  "config \<Rightarrow> job_world \<Rightarrow> string \<Rightarrow> string option \<Rightarrow> string \<Rightarrow> bool \<Rightarrow> bool \<Rightarrow> bool \<Rightarrow> bool \<Rightarrow> bool
     \<Rightarrow> bool \<Rightarrow> bool \<Rightarrow> unit io" where
  "update_github_repo_settings cfg w owner_type owner_name repo_name has_issues has_projects
     has_wiki allow_squash_merge allow_merge_commit allow_rebase_merge delete_branch_on_merge =
     (let request = (\<lambda>gh_owner.
            io_seq (log INFO (''Updating repository settings for '' @ py_str gh_owner @ ''/''
                      @ repo_name @ ''...''))
           (io_bind (perform (HttpPatch (RepoSettings (py_str gh_owner) repo_name)
                               (github_headers cfg)
                               [(''has_issues'', JBool has_issues),
                                (''has_projects'', JBool has_projects),
                                (''has_wiki'', JBool has_wiki),
                                (''allow_squash_merge'', JBool allow_squash_merge),
                                (''allow_merge_commit'', JBool allow_merge_commit),
                                (''allow_rebase_merge'', JBool allow_rebase_merge),
                                (''delete_branch_on_merge'', JBool delete_branch_on_merge)])
                       (settings_response w))
              (\<lambda>resp.
                 if status_code resp = 200 \<or> status_code resp = 201
                 then log INFO (''Repository settings updated for '' @ sq @ repo_name @ sq
                         @ ''.'')
                 else log WARNING (''Failed to update settings for '' @ sq @ repo_name @ sq
                         @ '': '' @ resp_text resp))))
      in if lower owner_type = ''org'' then request owner_name
         else if truthy owner_name then request owner_name
         else io_bind (get_authenticated_username cfg (settings_identity w))
                (\<lambda>gh_owner.
                   if \<not> truthy gh_owner
                   then log ERROR
                          ''Could not determine GitHub username to patch repo settings.''
                   else request gh_owner))"

text \<open>\<open>clone_from_gitlab\<close> returns the \<open>Repo\<close> of the clone directory, or \<open>None\<close>;
  the handle is modelled by the directory it stands for.\<close>

definition clone_from_gitlab :: "config \<Rightarrow> job_world \<Rightarrow> string \<Rightarrow> string \<Rightarrow> string option io" where
  "clone_from_gitlab cfg w gitlab_url clone_dir =
     try_except
       (let token_in_url =
              replace gitlab_url ''https://'' (''https://oauth2:'' @ GITLAB_TOKEN cfg @ ''@'')
        in io_seq (log INFO (''Cloning from GitLab (bare): '' @ gitlab_url))
          (io_seq (perform (GitCloneFrom token_in_url clone_dir) (clone_from_result w))
          (io_seq (log INFO ''Fetching all refs from GitLab...'')
          (io_seq (perform (GitFetchAll clone_dir) (fetch_result w))
          (io_seq (log INFO ''Local refs after fetch-all:'')
          (io_bind (perform (GitShowRef clone_dir) (show_ref_result w))
             (\<lambda>shown.
                let refs_output = (if shown = [] then ''(No refs found)'' else shown)
                in io_seq (log INFO refs_output) (ret (Some clone_dir)))))))))
       (\<lambda>e. case e of
               GitCommandError m \<Rightarrow>
                 io_seq (log ERROR (''Git clone/fetch failed for '' @ gitlab_url @ '': ''
                           @ exn_str e))
                        (ret None)
             | OtherException m \<Rightarrow> raise_exn e)"

definition push_to_github :: "config \<Rightarrow> job_world \<Rightarrow> string \<Rightarrow> string \<Rightarrow> bool io" where
  "push_to_github cfg w local_repo_path github_url =
     try_except
       (io_seq (perform (RepoOpen local_repo_path) (open_repo_result w))
          (let secure_github_url =
                 replace github_url ''https://'' (''https://'' @ GITHUB_TOKEN cfg @ ''@'')
           in io_bind (perform (GitRemotes local_repo_path) (remotes_result w))
                (\<lambda>remotes.
                   io_seq (if ''github'' \<notin> set remotes
                           then perform (GitCreateRemote local_repo_path ''github''
                                           secure_github_url)
                                  (set_remote_result w)
                           else perform (GitSetUrl local_repo_path ''github''
                                           secure_github_url)
                                  (set_remote_result w))
                  (io_seq (log INFO ''Pushing all refs to GitHub (mirror push)...'')
                  (io_seq (perform (GitPushMirror local_repo_path ''github'') (push_result w))
                  (io_seq (log INFO ''All refs pushed successfully.'')
                          (ret True)))))))
       (\<lambda>e. case e of
               GitCommandError m \<Rightarrow>
                 io_seq (log ERROR (''Error pushing to GitHub: '' @ exn_str e)) (ret False)
             | OtherException m \<Rightarrow> raise_exn e)"

subsection \<open>One job\<close>

text \<open>\<open>Path(f"./temp_clone_{new_repo_name}_{int(time.time())}")\<close>, as it is written.\<close>

definition local_clone_dir :: "string \<Rightarrow> nat \<Rightarrow> string" where
  "local_clone_dir new_repo_name now = ''./temp_clone_'' @ new_repo_name @ ''_'' @ str_nat now"

text \<open>The \<open>finally\<close> block of \<open>migrate_repository\<close>.\<close>

definition remove_local_clone :: "job_world \<Rightarrow> string \<Rightarrow> bool \<Rightarrow> unit io" where
  "remove_local_clone w dir success =
     io_seq (log INFO (''Removing local clone directory: '' @ dir))
    (io_seq (try_except
               (io_seq (rmtree dir (rmtree_errors w))
                  (io_bind (perform (IsDir dir) (is_dir_result w))
                     (\<lambda>still_there.
                        if still_there
                        then log WARNING (''Folder '' @ dir
                               @ '' still exists after rmtree, possibly locked.'')
                        else log INFO (''Folder '' @ dir @ '' successfully removed.''))))
               (\<lambda>e. log ERROR (''Error while removing folder '' @ dir @ '': '' @ exn_str e)))
            (if \<not> success then log WARNING ''Migration did not complete successfully.''
             else ret ()))"

text \<open>The \<open>try\<close> block of \<open>migrate_repository\<close>: the six steps.\<close>

definition migrate_steps ::
  "config \<Rightarrow> job_world \<Rightarrow> string \<Rightarrow> string \<Rightarrow> string option \<Rightarrow> string \<Rightarrow> bool \<Rightarrow> string
     \<Rightarrow> string option \<Rightarrow> bool \<Rightarrow> bool \<Rightarrow> bool io" where
  "migrate_steps cfg w gitlab_url owner_type owner_name new_repo_name private description
     team_slug apply_repo_settings copy_releases =
     io_bind (clone_from_gitlab cfg w gitlab_url
                (local_clone_dir new_repo_name (clock w)))
       (\<lambda>local_repo.
          if local_repo = None
          then io_seq (log ERROR (''Migration aborted for '' @ gitlab_url)) (ret False)
          else
     io_bind (create_github_repo cfg (create_repo_response w) new_repo_name owner_type
                owner_name private description)
       (\<lambda>github_clone_url.
          if \<not> truthy github_clone_url
          then io_seq (log ERROR ''Cannot proceed without GitHub repo creation.'') (ret False)
          else
     io_bind (push_to_github cfg w (local_clone_dir new_repo_name (clock w))
                (py_str github_clone_url))
       (\<lambda>push_success.
          if \<not> push_success
          then io_seq (log ERROR (''Push failed for '' @ new_repo_name @ ''.'')) (ret False)
          else
     io_seq (if copy_releases
             then io_seq (log INFO ''Copying GitLab releases to GitHub...'')
                    (copy_gitlab_releases_to_github cfg w gitlab_url owner_type owner_name
                       new_repo_name)
             else ret ())
    (io_seq (if apply_repo_settings
             then update_github_repo_settings cfg w owner_type owner_name new_repo_name
                    True True True True True True False
             else ret ())
    (io_seq (if truthy team_slug \<and> lower owner_type = ''org''
             then add_default_access_permissions cfg (team_response w) (py_str owner_name)
                    new_repo_name (py_str team_slug) ''push''
             else ret ())
    (io_seq (log INFO (''Repository '' @ sq @ new_repo_name @ sq
               @ '' migrated successfully from GitLab to GitHub.''))
            (ret True)))))))"

text \<open>\<open>success\<close> is set to \<open>True\<close> right before \<open>return True\<close> and nowhere else,
  so in the \<open>finally\<close> block it is true exactly when the steps returned \<open>True\<close>.\<close>

definition migrate_repository ::
  "config \<Rightarrow> job_world \<Rightarrow> string \<Rightarrow> string \<Rightarrow> string option \<Rightarrow> string \<Rightarrow> bool \<Rightarrow> string
     \<Rightarrow> string option \<Rightarrow> bool \<Rightarrow> bool \<Rightarrow> bool io" where
  "migrate_repository cfg w gitlab_url owner_type owner_name new_repo_name private description
     team_slug apply_repo_settings copy_releases =
     try_finally
       (migrate_steps cfg w gitlab_url owner_type owner_name new_repo_name private description
          team_slug apply_repo_settings copy_releases)
       (\<lambda>r. remove_local_clone w (local_clone_dir new_repo_name (clock w))
               (r = Returns True))"

subsection \<open>A batch of jobs\<close>

text \<open>\<open>results[key] = v\<close> on a Python dictionary, which keeps the order of insertion:
  a new key goes to the end, a key already there keeps its place and gets the value.\<close>

fun dict_set :: "(string \<times> string) list \<Rightarrow> string \<Rightarrow> string \<Rightarrow> (string \<times> string) list" where
  "dict_set [] k v = [(k, v)]"
| "dict_set ((k', v') # kvs) k v =
     (if k' = k then (k, v) # kvs else (k', v') # dict_set kvs k v)"

text \<open>The loop of \<open>bulk_migrate_repositories\<close>. \<open>worlds i\<close> is the world the job of
  index \<open>i\<close> meets; the number is the index of the head of the list.\<close>

fun bulk_loop ::
  "config \<Rightarrow> (nat \<Rightarrow> job_world) \<Rightarrow> string \<Rightarrow> string option \<Rightarrow> bool \<Rightarrow> string \<Rightarrow> string option
     \<Rightarrow> bool \<Rightarrow> bool \<Rightarrow> nat \<Rightarrow> (string \<times> string) list \<Rightarrow> (string \<times> string) list
     \<Rightarrow> event list \<times> (string \<times> string) list" where
  "bulk_loop cfg worlds owner_type owner_name private description team_slug
     apply_repo_settings copy_releases i [] results = ([], results)"
| "bulk_loop cfg worlds owner_type owner_name private description team_slug
     apply_repo_settings copy_releases i ((gitlab_repo_url, new_repo_name) # rest) results =
     (case migrate_repository cfg (worlds i) gitlab_repo_url owner_type owner_name
             new_repo_name private description team_slug apply_repo_settings copy_releases of
        (t, Returns success) \<Rightarrow>
          (case bulk_loop cfg worlds owner_type owner_name private description team_slug
                  apply_repo_settings copy_releases (Suc i) rest
                  (dict_set results new_repo_name (if success then ''Success'' else ''Failed''))
           of (t', final) \<Rightarrow>
             (Log INFO (''Starting migration for: '' @ gitlab_repo_url @ '' -> ''
                  @ new_repo_name) # t @ t', final))
      | (t, Raises e) \<Rightarrow>
          (case bulk_loop cfg worlds owner_type owner_name private description team_slug
                  apply_repo_settings copy_releases (Suc i) rest
                  (dict_set results new_repo_name ''Exception'')
           of (t', final) \<Rightarrow>
             (Log INFO (''Starting migration for: '' @ gitlab_repo_url @ '' -> ''
                  @ new_repo_name) # t
                @ Log ERROR (''Unexpected error migrating '' @ gitlab_repo_url @ '': ''
                    @ exn_str e) # t', final)))"

definition bulk_migrate_repositories ::
  "config \<Rightarrow> (nat \<Rightarrow> job_world) \<Rightarrow> (string \<times> string) list \<Rightarrow> string \<Rightarrow> string option \<Rightarrow> bool
     \<Rightarrow> string \<Rightarrow> string option \<Rightarrow> bool \<Rightarrow> bool \<Rightarrow> event list \<times> (string \<times> string) list" where
  "bulk_migrate_repositories cfg worlds repo_mapping owner_type owner_name private description
     team_slug apply_repo_settings copy_releases =
     bulk_loop cfg worlds owner_type owner_name private description team_slug
       apply_repo_settings copy_releases 0 repo_mapping []"

section \<open>Reading a trace\<close>

text \<open>
  The step of \<open>migrate_repository\<close> an event belongs to: 1 the clone, 2 the creation of
  the target repository, 3 the mirror push, 4 the copy of the releases, 5 the settings,
  6 the team access, 7 the removal of the clone directory. A log record belongs to no
  step, and neither does the lookup of the authenticated user, which the steps 4 and 5
  share.
\<close>

fun step_of :: "event \<Rightarrow> nat option" where
  "step_of (GitCloneFrom u d) = Some 1"
| "step_of (GitFetchAll d) = Some 1"
| "step_of (GitShowRef d) = Some 1"
| "step_of (HttpPost UserRepos h p) = Some 2"
| "step_of (HttpPost (OrgRepos n) h p) = Some 2"
| "step_of (RepoOpen d) = Some 3"
| "step_of (GitRemotes d) = Some 3"
| "step_of (GitCreateRemote d n u) = Some 3"
| "step_of (GitSetUrl d n u) = Some 3"
| "step_of (GitPushMirror d n) = Some 3"
| "step_of (HttpGet (GitlabReleases p) h) = Some 4"
| "step_of (HttpPost (RepoReleases n r) h p) = Some 4"
| "step_of (HttpPatch e h p) = Some 5"
| "step_of (HttpPut e h p) = Some 6"
| "step_of (RmTree d) = Some 7"
| "step_of (Chmod d) = Some 7"
| "step_of Sleep = Some 7"
| "step_of (Retry d) = Some 7"
| "step_of (IsDir d) = Some 7"
| "step_of e = None"

definition steps :: "event list \<Rightarrow> nat list" where
  "steps t = List.map_filter step_of t"

text \<open>The requests of the steps after the push (releases, settings, team access),
  the lookups of the authenticated user among them.\<close>

fun soft_step :: "event \<Rightarrow> bool" where
  "soft_step (HttpGet e h) = True"
| "soft_step (HttpPost (RepoReleases n r) h p) = True"
| "soft_step (HttpPatch e h p) = True"
| "soft_step (HttpPut e h p) = True"
| "soft_step e = False"

text \<open>A trace whose events all belong to step \<open>k\<close> or to none; a trace whose steps
  are in order and between two bounds; a trace without a request of the later steps
  whose events belong to the steps up to \<open>k\<close>.\<close>

definition only_step :: "nat \<Rightarrow> event list \<Rightarrow> bool" where
  "only_step k t = (\<forall>e \<in> set t. step_of e = None \<or> step_of e = Some k)"

definition ordered :: "nat \<Rightarrow> nat \<Rightarrow> event list \<Rightarrow> bool" where
  "ordered lo hi t = (sorted (steps t) \<and> (\<forall>y \<in> set (steps t). lo \<le> y \<and> y \<le> hi))"

definition hard_upto :: "nat \<Rightarrow> event list \<Rightarrow> bool" where
  "hard_upto k t = (\<forall>e \<in> set t. \<not> soft_step e \<and> (\<forall>j. step_of e = Some j \<longrightarrow> j \<le> k))"

text \<open>The call of \<open>shutil.rmtree\<close>.\<close>

fun is_rmtree :: "event \<Rightarrow> bool" where
  "is_rmtree (RmTree d) = True"
| "is_rmtree e = False"

text \<open>
  A request that is answered: the call returns a response, and its body decodes when the
  program decodes it (the status codes listed). The requests of the steps after the
  push are all answered when each of them is; the status codes are free.
\<close>

definition answered :: "nat list \<Rightarrow> 'j response outcome \<Rightarrow> bool" where
  "answered decoded a =
     (case a of
        Raises e \<Rightarrow> False
      | Returns r \<Rightarrow>
          (status_code r \<in> set decoded \<longrightarrow>
             (case resp_json r of Raises e \<Rightarrow> False | Returns j \<Rightarrow> True)))"

definition release_answered :: "release_world \<Rightarrow> bool" where
  "release_answered rw = (answered [200] (rel_identity rw) \<and> answered [201, 200] (rel_post rw))"

definition soft_steps_answered :: "job_world \<Rightarrow> bool" where
  "soft_steps_answered w =
     (answered [200] (releases_response w)
      \<and> (\<forall>i. release_answered (release_worlds w i))
      \<and> answered [200] (settings_identity w)
      \<and> answered [] (settings_response w)
      \<and> answered [] (team_response w))"

text \<open>The tag of the release a request creates, and the tags of the releases whose
  creation a trace requests, in order.\<close>

fun release_tag :: "event \<Rightarrow> json option" where
  "release_tag (HttpPost (RepoReleases n r) h p) = map_of p ''tag_name''"
| "release_tag e = None"

definition release_tags :: "event list \<Rightarrow> json list" where
  "release_tags t = List.map_filter release_tag t"

text \<open>
  The status the loop of \<open>bulk_migrate_repositories\<close> stores for a job; the calls of
  \<open>Repo.clone_from\<close> in a trace, each with the URL and the directory it is given; and
  the URL with the token that \<open>clone_from_gitlab\<close> builds.
\<close>

definition job_status ::
  "config \<Rightarrow> job_world \<Rightarrow> string \<Rightarrow> string \<Rightarrow> string option \<Rightarrow> string \<Rightarrow> bool \<Rightarrow> string
     \<Rightarrow> string option \<Rightarrow> bool \<Rightarrow> bool \<Rightarrow> string" where
  "job_status cfg w gitlab_url owner_type owner_name new_repo_name private description team_slug
     apply_repo_settings copy_releases =
     (case snd (migrate_repository cfg w gitlab_url owner_type owner_name new_repo_name private
                  description team_slug apply_repo_settings copy_releases) of
        Returns success \<Rightarrow> (if success then ''Success'' else ''Failed'')
      | Raises e \<Rightarrow> ''Exception'')"

fun clone_request :: "event \<Rightarrow> (string \<times> string) option" where
  "clone_request (GitCloneFrom u d) = Some (u, d)"
| "clone_request e = None"

definition clone_requests :: "event list \<Rightarrow> (string \<times> string) list" where
  "clone_requests t = List.map_filter clone_request t"

definition token_in_url :: "config \<Rightarrow> string \<Rightarrow> string" where
  "token_in_url cfg gitlab_url =
     replace gitlab_url ''https://'' (''https://oauth2:'' @ GITLAB_TOKEN cfg @ ''@'')"

section \<open>Example worlds\<close>

definition example_config :: config where
  "example_config = \<lparr>GITLAB_TOKEN = ''glpat'', GITHUB_TOKEN = ''ghp''\<rparr>"

text \<open>A response with a status code, a text and a body that decodes.\<close>

definition answer :: "nat \<Rightarrow> string \<Rightarrow> 'j \<Rightarrow> 'j response outcome" where
  "answer code body j = Returns \<lparr>status_code = code, resp_text = body, resp_json = Returns j\<rparr>"

text \<open>A world in which every call succeeds; the source repository has two releases.\<close>

definition calm_world :: job_world where
  "calm_world =
     \<lparr>clock = 5,
      clone_from_result = Returns (),
      fetch_result = Returns (),
      show_ref_result = Returns ''0a1b refs/heads/main'',
      create_repo_response =
        answer 201 ''{}'' [(''clone_url'', ''https://github.com/me/proj-copy.git'')],
      open_repo_result = Returns (),
      remotes_result = Returns [''origin''],
      set_remote_result = Returns (),
      push_result = Returns (),
      releases_response = answer 200 ''[]''
        [\<lparr>gr_tag_name = Some ''v1.0'', gr_name = Some ''First'',
          gr_description = Some ''notes''\<rparr>,
         \<lparr>gr_tag_name = Some ''v1.1'', gr_name = None, gr_description = None\<rparr>],
      release_worlds = (\<lambda>i. \<lparr>rel_identity = answer 200 ''{}'' [(''login'', ''me'')],
                               rel_post = answer 201 ''{}'' []\<rparr>),
      settings_identity = answer 200 ''{}'' [(''login'', ''me'')],
      settings_response = answer 200 ''{}'' [],
      team_response = answer 200 ''{}'' [],
      rmtree_errors = [],
      is_dir_result = Returns False\<rparr>"

text \<open>As \<open>calm_world\<close>, but a file of the clone directory stays locked: the
  retry of the callback fails too.\<close>

definition locked_world :: job_world where
  "locked_world = calm_world
     \<lparr>rmtree_errors :=
        [\<lparr>err_path = ''./temp_clone_proj-copy_5/packed-refs'',
          err_exc = ''[WinError 5] Access is denied'',
          chmod_outcome = Returns (),
          retry_outcome = Raises (OtherException ''[WinError 5] Access is denied'')\<rparr>],
      is_dir_result := Returns True\<rparr>"

text \<open>A response that reports a failure, with a body that is not JSON; a world in which
  every request of the steps after the push is refused that way; and a world in which
  the request for the releases raises.\<close>

definition refusal :: "nat \<Rightarrow> string \<Rightarrow> 'j response outcome" where
  "refusal code body =
     Returns \<lparr>status_code = code, resp_text = body,
              resp_json = Raises (OtherException ''Expecting value: line 1 column 1 (char 0)'')\<rparr>"

definition refusing_world :: job_world where
  "refusing_world = calm_world
     \<lparr>releases_response := refusal 500 ''Internal Server Error'',
      settings_identity := refusal 401 ''Bad credentials'',
      settings_response := refusal 403 ''Forbidden'',
      team_response := refusal 404 ''Not Found''\<rparr>"

definition unreachable_gitlab_world :: job_world where
  "unreachable_gitlab_world = calm_world
     \<lparr>releases_response := Raises (OtherException ''Connection refused'')\<rparr>"

text \<open>A world in which GitLab answers the request for the releases with status 200 and
  a body that is not JSON; and three releases to copy.\<close>

definition undecodable_releases_world :: job_world where
  "undecodable_releases_world = calm_world
     \<lparr>releases_response :=
        Returns \<lparr>status_code = 200, resp_text = ''<html>maintenance</html>'',
                 resp_json = Raises (OtherException
                   ''Expecting value: line 1 column 1 (char 0)'')\<rparr>\<rparr>"

definition three_releases :: "gitlab_release list" where
  "three_releases =
     [\<lparr>gr_tag_name = Some ''v1'', gr_name = Some ''one'', gr_description = Some ''a''\<rparr>,
      \<lparr>gr_tag_name = Some ''v2'', gr_name = Some ''two'', gr_description = Some ''b''\<rparr>,
      \<lparr>gr_tag_name = Some ''v3'', gr_name = Some ''three'', gr_description = Some ''c''\<rparr>]"

text \<open>The creation of the second release is refused with status 422.\<close>

definition second_refused :: "nat \<Rightarrow> release_world" where
  "second_refused i =
     \<lparr>rel_identity = answer 200 ''{}'' [(''login'', ''me'')],
      rel_post = (if i = 1 then refusal 422 ''Validation Failed'' else answer 201 ''{}'' [])\<rparr>"

text \<open>The request that creates the second release raises.\<close>

definition second_raises :: "nat \<Rightarrow> release_world" where
  "second_raises i =
     \<lparr>rel_identity = answer 200 ''{}'' [(''login'', ''me'')],
      rel_post = (if i = 1 then Raises (OtherException ''Connection aborted'')
                  else answer 201 ''{}'' [])\<rparr>"

text \<open>The worlds of a batch of two jobs: the clone of the first job fails and the second
  job succeeds; and the creation request of the first job raises.\<close>

definition two_worlds :: "nat \<Rightarrow> job_world" where
  "two_worlds i =
     (if i = 0 then calm_world\<lparr>clone_from_result := Raises (GitCommandError ''repository not found'')\<rparr>
      else calm_world)"


section \<open>Properties of the bulk input file\<close>

lemma strip_all_space: "(\<forall>c \<in> set s. isspace c) \<Longrightarrow> strip s = []"
  by (auto simp: strip_def dest: set_dropWhileD)

lemma length_split_acc: "length (split_acc sep acc s) = Suc (count_list s sep)"
  by (induction s arbitrary: acc) simp_all

lemma length_split_sep: "length (split_sep s sep) = Suc (count_list s sep)"
  by (simp add: split_sep_def length_split_acc)

lemma read_repo_list_acc:
  "read_repo_list acc f = acc @ List.map_filter parse_line f"
  by (induction f arbitrary: acc) (simp_all split: option.split)

lemma map_filter_append:
  "List.map_filter g (xs @ ys) = List.map_filter g xs @ List.map_filter g ys"
  by (simp add: List.map_filter_def)

lemma map_filter_single:
  "List.map_filter g [x] = (case g x of None \<Rightarrow> [] | Some y \<Rightarrow> [y])"
  by (simp split: option.split)

lemma parse_line_example: "parse_line '' a , b '' = Some (''a'', ''b'')"
  by (simp add: parse_line_def strip_def isspace_def startswith_def split_sep_def)

text \<open>
  C7. A line of whitespace only, a line whose stripped form begins with \<open>#\<close>, and a
  line whose stripped form does not hold exactly one comma (so that it does not split
  into exactly two fields) contribute no entry; the line \<open>" a , b "\<close> contributes the
  entry \<open>("a", "b")\<close>; and the entries of a file are those of its lines, in file order.
\<close>

theorem bulk_file_parsing:
  "((\<forall>c \<in> set l. isspace c) \<longrightarrow> parse_line l = None)
   \<and> (startswith (strip l) ''#'' \<longrightarrow> parse_line l = None)
   \<and> (length (split_sep (strip l) CHR '','') \<noteq> 2 \<longrightarrow> parse_line l = None)
   \<and> (count_list (strip l) CHR '','' \<noteq> 1 \<longrightarrow> parse_line l = None)
   \<and> parse_line '' a , b '' = Some (''a'', ''b'')
   \<and> read_repo_list [] (f1 @ [l] @ f2) =
       read_repo_list [] f1 @ (case parse_line l of None \<Rightarrow> [] | Some e \<Rightarrow> [e])
         @ read_repo_list [] f2"
proof -
  have blank: "(\<forall>c \<in> set l. isspace c) \<longrightarrow> parse_line l = None"
    by (simp add: parse_line_def strip_all_space)
  have hash: "startswith (strip l) ''#'' \<longrightarrow> parse_line l = None"
    by (simp add: parse_line_def)
  have fields: "length (split_sep (strip l) CHR '','') \<noteq> 2 \<longrightarrow> parse_line l = None"
    by (simp add: parse_line_def Let_def)
  have commas: "count_list (strip l) CHR '','' \<noteq> 1 \<longrightarrow> parse_line l = None"
    by (simp add: parse_line_def Let_def length_split_sep)
  have order: "read_repo_list [] (f1 @ [l] @ f2) =
       read_repo_list [] f1 @ (case parse_line l of None \<Rightarrow> [] | Some e \<Rightarrow> [e])
         @ read_repo_list [] f2"
    by (simp add: read_repo_list_acc map_filter_append map_filter_single split: option.split)
  from blank hash fields commas parse_line_example order show ?thesis
    by blast
qed

theorem bulk_file_parsing_witness:
  "parse_line ''  '' = None
   \<and> parse_line ''# comment'' = None
   \<and> parse_line ''a,b,c'' = None
   \<and> read_repo_list [] [''# repos'', '' a , b '', ''a,b,c'', ''x,y''] =
       [(''a'', ''b''), (''x'', ''y'')]"
proof -
  have sp: "\<forall>c \<in> set ''  ''. isspace c"
    by (simp add: isspace_def)
  have hs: "startswith (strip ''# comment'') ''#''"
    by (simp add: strip_def isspace_def startswith_def)
  have three: "length (split_sep (strip ''a,b,c'') CHR '','') \<noteq> 2"
    by (simp add: strip_def isspace_def split_sep_def)
  have a: "parse_line ''  '' = None"
    using bulk_file_parsing [of "''  ''"] sp by blast
  have b: "parse_line ''# comment'' = None"
    using bulk_file_parsing [of "''# comment''"] hs by blast
  have c: "parse_line ''a,b,c'' = None"
    using bulk_file_parsing [of "''a,b,c''"] three by blast
  have d: "read_repo_list [] ([''# repos''] @ ['' a , b ''] @ [''a,b,c'', ''x,y'']) =
       read_repo_list [] [''# repos''] @ (case parse_line '' a , b '' of None \<Rightarrow> [] | Some e \<Rightarrow> [e])
         @ read_repo_list [] [''a,b,c'', ''x,y'']"
    using bulk_file_parsing [of "'' a , b ''" "[''# repos'']" "[''a,b,c'', ''x,y'']"] by blast
  have e: "read_repo_list [] [''# repos''] = []"
    by (simp add: parse_line_def strip_def isspace_def startswith_def)
  have f: "read_repo_list [] [''a,b,c'', ''x,y''] = [(''x'', ''y'')]"
    by (simp add: parse_line_def strip_def isspace_def startswith_def split_sep_def)
  from a b c d e f parse_line_example show ?thesis
    by simp
qed

section \<open>Traces of the combinators\<close>

lemma fst_ret [simp]: "fst (ret x) = []" and snd_ret [simp]: "snd (ret x) = Returns x"
  by (simp_all add: ret_def)
lemma fst_raise [simp]: "fst (raise_exn e) = []" and snd_raise [simp]: "snd (raise_exn e) = Raises e"
  by (simp_all add: raise_exn_def)
lemma fst_log [simp]: "fst (log l m) = [Log l m]" and snd_log [simp]: "snd (log l m) = Returns ()"
  by (simp_all add: log_def)
lemma fst_perform [simp]: "fst (perform e r) = [e]" and snd_perform [simp]: "snd (perform e r) = r"
  by (simp_all add: perform_def)
lemma fst_json_of [simp]: "fst (json_of r) = []" and snd_json_of [simp]: "snd (json_of r) = resp_json r"
  by (simp_all add: json_of_def)

lemma fst_io_bind:
  "fst (io_bind m f) = fst m @ (case snd m of Returns x \<Rightarrow> fst (f x) | Raises e \<Rightarrow> [])"
  by (cases m) (simp add: io_bind_def split: outcome.split prod.split)
lemma snd_io_bind:
  "snd (io_bind m f) = (case snd m of Returns x \<Rightarrow> snd (f x) | Raises e \<Rightarrow> Raises e)"
  by (cases m) (simp add: io_bind_def split: outcome.split prod.split)
lemma fst_io_seq:
  "fst (io_seq m n) = fst m @ (case snd m of Returns x \<Rightarrow> fst n | Raises e \<Rightarrow> [])"
  by (simp add: io_seq_def fst_io_bind)
lemma snd_io_seq:
  "snd (io_seq m n) = (case snd m of Returns x \<Rightarrow> snd n | Raises e \<Rightarrow> Raises e)"
  by (simp add: io_seq_def snd_io_bind)
lemma fst_try_except:
  "fst (try_except m h) = fst m @ (case snd m of Returns x \<Rightarrow> [] | Raises e \<Rightarrow> fst (h e))"
  by (cases m) (simp add: try_except_def split: outcome.split prod.split)
lemma snd_try_except:
  "snd (try_except m h) = (case snd m of Returns x \<Rightarrow> Returns x | Raises e \<Rightarrow> snd (h e))"
  by (cases m) (simp add: try_except_def split: outcome.split prod.split)
lemma fst_try_finally:
  "fst (try_finally m c) = fst m @ fst (c (snd m))"
  by (cases m) (simp add: try_finally_def split: outcome.split prod.split)
lemma snd_try_finally:
  "snd (try_finally m c) = (case snd (c (snd m)) of Returns x \<Rightarrow> snd m | Raises e \<Rightarrow> Raises e)"
  by (cases m) (simp add: try_finally_def split: outcome.split prod.split)

lemmas io_simps = fst_io_bind snd_io_bind fst_io_seq snd_io_seq fst_try_except snd_try_except
  fst_try_finally snd_try_finally

lemma steps_append [simp]: "steps (a @ b) = steps a @ steps b"
  by (simp add: steps_def List.map_filter_def)
lemma steps_Nil [simp]: "steps [] = []"
  by (simp add: steps_def)
lemma steps_Cons [simp]: "steps (e # t) = (case step_of e of None \<Rightarrow> steps t | Some k \<Rightarrow> k # steps t)"
  by (simp add: steps_def split: option.split)

lemma clone_steps: "set (steps (fst (clone_from_gitlab cfg w u d))) \<subseteq> {1}"
  by (auto simp: clone_from_gitlab_def io_simps Let_def split: outcome.splits exn.splits)

lemma create_steps: "set (steps (fst (create_github_repo cfg a n ot on p ds))) \<subseteq> {2}"
  by (auto simp: create_github_repo_def io_simps Let_def split: outcome.splits exn.splits option.splits if_splits)

lemma push_steps: "set (steps (fst (push_to_github cfg w d u))) \<subseteq> {3}"
  by (auto simp: push_to_github_def io_simps Let_def split: outcome.splits exn.splits option.splits if_splits)

text \<open>The decimal digits, for \<open>str_nat\<close> on a numeral.\<close>

lemma char_of_digits:
  "char_of (48::nat) = CHR ''0''" "char_of (49::nat) = CHR ''1''"
  "char_of (50::nat) = CHR ''2''" "char_of (51::nat) = CHR ''3''"
  "char_of (52::nat) = CHR ''4''" "char_of (53::nat) = CHR ''5''"
  "char_of (54::nat) = CHR ''6''" "char_of (55::nat) = CHR ''7''"
  "char_of (56::nat) = CHR ''8''" "char_of (57::nat) = CHR ''9''"
  by code_simp+

text \<open>The definitions unfolded to run the model on a concrete world.\<close>

lemmas eval_defs = migrate_repository_def migrate_steps_def remove_local_clone_def
  clone_from_gitlab_def create_github_repo_def push_to_github_def
  copy_gitlab_releases_to_github_def get_gitlab_releases_def create_github_release_def
  copy_release_def
  get_authenticated_username_def update_github_repo_settings_def
  add_default_access_permissions_def rmtree_def on_rm_error_def local_clone_dir_def
  io_bind_def io_seq_def try_except_def try_finally_def ret_def raise_exn_def log_def
  perform_def json_of_def truthy_def py_str_def lower_def lower_char_def str_nat.simps
  char_of_digits
  calm_world_def example_config_def answer_def Let_def

section \<open>The steps of a job in its trace\<close>

lemma only_step_Nil [simp]: "only_step k []"
  by (simp add: only_step_def)
lemma only_step_append [simp]: "only_step k (a @ b) = (only_step k a \<and> only_step k b)"
  by (auto simp: only_step_def)
lemma only_step_Cons [simp]:
  "only_step k (e # t) = ((step_of e = None \<or> step_of e = Some k) \<and> only_step k t)"
  by (auto simp: only_step_def)

lemma only_step_steps: "only_step k t \<Longrightarrow> set (steps t) \<subseteq> {k}"
  by (induction t) (auto split: option.splits)

lemma sorted_const: "set xs \<subseteq> {k::nat} \<Longrightarrow> sorted xs"
  by (induction xs) auto

lemma clone_only: "only_step 1 (fst (clone_from_gitlab cfg w u d))"
  by (auto simp: clone_from_gitlab_def io_simps Let_def split: outcome.splits exn.splits)

lemma clone_hard: "e \<in> set (fst (clone_from_gitlab cfg w u d)) \<Longrightarrow> \<not> soft_step e"
  by (auto simp: clone_from_gitlab_def io_simps Let_def split: outcome.splits exn.splits if_splits)

lemma clone_result:
  "snd (clone_from_gitlab cfg w u d) = Returns (Some d') \<Longrightarrow> d' = d"
  by (auto simp: clone_from_gitlab_def io_simps Let_def split: outcome.splits exn.splits if_splits)

lemma create_only: "only_step 2 (fst (create_github_repo cfg a n ot on p ds))"
  by (auto simp: create_github_repo_def io_simps Let_def split: outcome.splits exn.splits option.splits if_splits)

lemma create_hard: "e \<in> set (fst (create_github_repo cfg a n ot on p ds)) \<Longrightarrow> \<not> soft_step e"
  by (auto simp: create_github_repo_def io_simps Let_def split: outcome.splits exn.splits option.splits if_splits)

lemma push_only: "only_step 3 (fst (push_to_github cfg w d u))"
  by (auto simp: push_to_github_def io_simps Let_def split: outcome.splits exn.splits option.splits if_splits)

lemma push_hard: "e \<in> set (fst (push_to_github cfg w d u)) \<Longrightarrow> \<not> soft_step e"
  by (auto simp: push_to_github_def io_simps Let_def split: outcome.splits exn.splits option.splits if_splits)

lemma identity_only: "only_step k (fst (get_authenticated_username cfg a))"
  by (auto simp: get_authenticated_username_def io_simps split: outcome.splits)

lemma release_only: "only_step 4 (fst (create_github_release cfg rw ot on rn tg nm bd))"
  by (auto simp: create_github_release_def io_simps Let_def identity_only split: outcome.splits)

lemma copy_release_only: "only_step 4 (fst (copy_release cfg rw ot on rn gr))"
  by (simp add: copy_release_def Let_def release_only)

lemma loop_only: "only_step 4 (fst (copy_releases_loop cfg rws ot on rn i rs))"
  by (induction rs arbitrary: i) (auto simp: io_simps copy_release_only split: outcome.splits)

lemma releases_only: "only_step 4 (fst (copy_gitlab_releases_to_github cfg w u ot on rn))"
  by (auto simp: copy_gitlab_releases_to_github_def get_gitlab_releases_def io_simps Let_def loop_only split: outcome.splits)

lemma settings_only: "only_step 5 (fst (update_github_repo_settings cfg w ot on rn a b c d e f g))"
  by (auto simp: update_github_repo_settings_def io_simps Let_def identity_only split: outcome.splits)

lemma team_only: "only_step 6 (fst (add_default_access_permissions cfg a org rn ts pm))"
  by (auto simp: add_default_access_permissions_def io_simps split: outcome.splits)

lemma on_rm_error_only: "only_step 7 (fst (on_rm_error err))"
  by (auto simp: on_rm_error_def io_simps split: outcome.splits)

lemma on_rm_error_hard: "e \<in> set (fst (on_rm_error err)) \<Longrightarrow> \<not> soft_step e"
  by (auto simp: on_rm_error_def io_simps split: outcome.splits if_splits)

lemma rmtree_onerror_only: "only_step 7 (fst (rmtree_onerror errs))"
  by (induction errs) (auto simp: io_simps on_rm_error_only split: outcome.splits)

lemma rmtree_onerror_hard: "e \<in> set (fst (rmtree_onerror errs)) \<Longrightarrow> \<not> soft_step e"
  by (induction errs) (auto simp: io_simps dest: on_rm_error_hard split: outcome.splits if_splits)

lemma cleanup_only: "only_step 7 (fst (remove_local_clone w d s))"
  by (auto simp: remove_local_clone_def rmtree_def io_simps rmtree_onerror_only split: outcome.splits)

lemma cleanup_hard: "e \<in> set (fst (remove_local_clone w d s)) \<Longrightarrow> \<not> soft_step e"
  by (auto simp: remove_local_clone_def rmtree_def io_simps dest: rmtree_onerror_hard split: outcome.splits if_splits)

lemma ordered_Nil [simp]: "ordered lo hi []"
  by (simp add: ordered_def)

lemma ordered_only: "only_step k t \<Longrightarrow> lo \<le> k \<Longrightarrow> k \<le> hi \<Longrightarrow> ordered lo hi t"
  using only_step_steps [of k t] sorted_const [of "steps t" k]
  by (auto simp: ordered_def)

lemma ordered_mono: "ordered a b t \<Longrightarrow> a' \<le> a \<Longrightarrow> b \<le> b' \<Longrightarrow> ordered a' b' t"
  by (fastforce simp: ordered_def)

lemma ordered_append:
  "ordered a b t \<Longrightarrow> ordered c d u \<Longrightarrow> b \<le> c \<Longrightarrow> a \<le> c \<Longrightarrow> b \<le> d \<Longrightarrow> ordered a d (t @ u)"
  by (fastforce simp: ordered_def sorted_append)

lemma ordered_log [simp]: "ordered a b (Log l m # t) = ordered a b t"
  by (simp add: ordered_def)

lemma ordered_seq:
  assumes "ordered a b (fst m)" and "ordered c d (fst n)" and "b \<le> c" and "a \<le> c" and "b \<le> d"
  shows "ordered a d (fst (io_seq m n))"
proof (cases "snd m")
  case (Returns x)
  then show ?thesis
    using assms by (simp add: fst_io_seq ordered_append)
next
  case (Raises e)
  then show ?thesis
    using assms ordered_mono [of a b "fst m" a d] by (simp add: fst_io_seq)
qed

lemma ordered_bind:
  assumes "ordered a b (fst m)" and "\<And>x. ordered c d (fst (f x))" and "b \<le> c" and "a \<le> c" and "b \<le> d"
  shows "ordered a d (fst (io_bind m f))"
proof (cases "snd m")
  case (Returns x)
  then show ?thesis
    using assms(1) assms(2) [of x] assms(3-5) by (simp add: fst_io_bind ordered_append)
next
  case (Raises e)
  then show ?thesis
    using assms ordered_mono [of a b "fst m" a d] by (simp add: fst_io_bind)
qed

lemma ordered_fst_if:
  "ordered a b (fst t) \<Longrightarrow> ordered a b (fst u) \<Longrightarrow> ordered a b (fst (if c then t else u))"
  by simp

lemma ordered_fail: "ordered a b (fst (io_seq (log l m) (ret (x::bool))))"
  by (simp add: fst_io_seq)

lemma steps_split:
  "\<exists>rest. fst (migrate_steps cfg w u ot on rn pv ds ts ars cr) =
      fst (clone_from_gitlab cfg w u (local_clone_dir rn (clock w))) @ rest
    \<and> ordered 2 6 rest"
proof -
  let ?rel = "if cr then io_seq (log INFO ''Copying GitLab releases to GitHub...'')
                    (copy_gitlab_releases_to_github cfg w u ot on rn) else ret ()"
  let ?set = "if ars then update_github_repo_settings cfg w ot on rn True True True True True True False
              else ret ()"
  let ?team = "if truthy ts \<and> lower ot = ''org''
             then add_default_access_permissions cfg (team_response w) (py_str on) rn (py_str ts) ''push''
             else ret ()"
  let ?fin = "io_seq (log INFO (''Repository '' @ sq @ rn @ sq
               @ '' migrated successfully from GitLab to GitHub.'')) (ret True)"
  let ?soft = "io_seq ?rel (io_seq ?set (io_seq ?team ?fin))"
  let ?k3 = "\<lambda>push_success. if \<not> push_success
          then io_seq (log ERROR (''Push failed for '' @ rn @ ''.'')) (ret False) else ?soft"
  let ?k2 = "\<lambda>github_clone_url. if \<not> truthy github_clone_url
          then io_seq (log ERROR ''Cannot proceed without GitHub repo creation.'') (ret False)
          else io_bind (push_to_github cfg w (local_clone_dir rn (clock w)) (py_str github_clone_url)) ?k3"
  let ?k1 = "\<lambda>local_repo. if local_repo = None
          then io_seq (log ERROR (''Migration aborted for '' @ u)) (ret False)
          else io_bind (create_github_repo cfg (create_repo_response w) rn ot on pv ds) ?k2"
  have rel: "ordered 4 4 (fst ?rel)"
    using ordered_only [OF releases_only [of cfg w u ot on rn], of 4 4]
    by (simp add: fst_io_seq)
  have set: "ordered 5 5 (fst ?set)"
    using ordered_only [OF settings_only [of cfg w ot on rn True True True True True True False], of 5 5]
    by simp
  have team: "ordered 6 6 (fst ?team)"
    using ordered_only [OF team_only [of cfg "team_response w" "py_str on" rn "py_str ts" "''push''"], of 6 6]
    by simp
  have fin: "ordered 6 6 (fst ?fin)"
    by (rule ordered_fail)
  have a: "ordered 6 6 (fst (io_seq ?team ?fin))"
    by (rule ordered_seq [OF team fin]) simp_all
  have b: "ordered 5 6 (fst (io_seq ?set (io_seq ?team ?fin)))"
    by (rule ordered_seq [OF set a]) simp_all
  have soft: "ordered 4 6 (fst ?soft)"
    by (rule ordered_seq [OF rel b]) simp_all
  have k3: "ordered 4 6 (fst (?k3 x))" for x :: bool
    by (rule ordered_fst_if [OF ordered_fail soft])
  have push: "ordered 3 3 (fst (push_to_github cfg w (local_clone_dir rn (clock w)) url))" for url
    by (rule ordered_only [OF push_only]) simp_all
  have k2: "ordered 3 6 (fst (?k2 x))" for x :: "string option"
    by (rule ordered_fst_if [OF ordered_fail ordered_bind [OF push k3]]) simp_all
  have create: "ordered 2 2 (fst (create_github_repo cfg (create_repo_response w) rn ot on pv ds))"
    by (rule ordered_only [OF create_only]) simp_all
  have k1: "ordered 2 6 (fst (?k1 x))" for x :: "string option"
    by (rule ordered_fst_if [OF ordered_fail ordered_bind [OF create k2]]) simp_all
  let ?clone = "clone_from_gitlab cfg w u (local_clone_dir rn (clock w))"
  let ?rest = "case snd ?clone of Returns x \<Rightarrow> fst (?k1 x) | Raises e \<Rightarrow> []"
  have rest: "ordered 2 6 ?rest"
  proof (cases "snd ?clone")
    case (Returns x)
    show ?thesis
      unfolding Returns outcome.case by (rule k1)
  next
    case (Raises e)
    show ?thesis
      unfolding Raises outcome.case by (rule ordered_Nil)
  qed
  have "fst (migrate_steps cfg w u ot on rn pv ds ts ars cr) = fst ?clone @ ?rest"
    unfolding migrate_steps_def fst_io_bind by (rule refl)
  with rest show ?thesis
    by blast
qed

lemma ordered_steps:
  "ordered 1 6 (fst (migrate_steps cfg w u ot on rn pv ds ts ars cr))"
proof -
  obtain rest where eq: "fst (migrate_steps cfg w u ot on rn pv ds ts ars cr) =
      fst (clone_from_gitlab cfg w u (local_clone_dir rn (clock w))) @ rest"
    and rest: "ordered 2 6 rest"
    using steps_split by blast
  have clone: "ordered 1 1 (fst (clone_from_gitlab cfg w u (local_clone_dir rn (clock w))))"
    by (rule ordered_only [OF clone_only]) simp_all
  show ?thesis
    unfolding eq by (rule ordered_append [OF clone rest]) simp_all
qed

lemma ordered_run:
  "ordered 1 7 (fst (migrate_repository cfg w u ot on rn pv ds ts ars cr))"
proof -
  have c: "ordered 7 7 (fst (remove_local_clone w d s))" for d s
    by (rule ordered_only [OF cleanup_only]) simp_all
  show ?thesis
    unfolding migrate_repository_def fst_try_finally
    by (rule ordered_append [OF ordered_steps c]) simp_all
qed

lemma hard_upto_Nil [simp]: "hard_upto k []"
  by (simp add: hard_upto_def)

lemma hard_upto_append [simp]: "hard_upto k (a @ b) = (hard_upto k a \<and> hard_upto k b)"
  by (auto simp: hard_upto_def)

lemma hard_upto_log [simp]: "hard_upto k [Log l m]"
  by (simp add: hard_upto_def)

lemma hard_upto_mono: "hard_upto j t \<Longrightarrow> j \<le> k \<Longrightarrow> hard_upto k t"
  by (fastforce simp: hard_upto_def)

lemma hard_upto_only:
  "only_step j t \<Longrightarrow> (\<And>e. e \<in> set t \<Longrightarrow> \<not> soft_step e) \<Longrightarrow> j \<le> k \<Longrightarrow> hard_upto k t"
  by (fastforce simp: hard_upto_def only_step_def)

lemma clone_upto: "hard_upto 1 (fst (clone_from_gitlab cfg w u d))"
  by (rule hard_upto_only [OF clone_only]) (simp_all add: clone_hard)

lemma create_upto: "hard_upto 2 (fst (create_github_repo cfg a n ot on p ds))"
  by (rule hard_upto_only [OF create_only]) (simp_all add: create_hard)

lemma push_upto: "hard_upto 3 (fst (push_to_github cfg w d u))"
  by (rule hard_upto_only [OF push_only]) (simp_all add: push_hard)

lemma clone_cases:
  "snd (clone_from_gitlab cfg w u d) = Returns (Some d)
   \<or> snd (clone_from_gitlab cfg w u d) = Returns None
   \<or> (\<exists>e. snd (clone_from_gitlab cfg w u d) = Raises e)"
  by (auto simp: clone_from_gitlab_def io_simps Let_def split: outcome.splits exn.splits)

lemma steps_clone_failed:
  assumes "snd (clone_from_gitlab cfg w u (local_clone_dir rn (clock w))) \<noteq> Returns (Some (local_clone_dir rn (clock w)))"
  shows "hard_upto 1 (fst (migrate_steps cfg w u ot on rn pv ds ts ars cr))"
  using assms clone_cases [of cfg w u "local_clone_dir rn (clock w)"]
    clone_upto [of cfg w u "local_clone_dir rn (clock w)"]
  by (auto simp: migrate_steps_def fst_io_bind fst_io_seq)

lemma steps_create_failed:
  assumes "\<forall>url. url \<noteq> [] \<longrightarrow>
     snd (create_github_repo cfg (create_repo_response w) rn ot on pv ds) \<noteq> Returns (Some url)"
  shows "hard_upto 2 (fst (migrate_steps cfg w u ot on rn pv ds ts ars cr))"
proof -
  have c: "hard_upto 2 (fst (clone_from_gitlab cfg w u (local_clone_dir rn (clock w))))"
    by (rule hard_upto_mono [OF clone_upto]) simp
  have untruthy: "\<not> truthy x" if "snd (create_github_repo cfg (create_repo_response w) rn ot on pv ds) = Returns x" for x
    using assms that by (cases x) (auto simp: truthy_def)
  show ?thesis
    using c create_upto [of cfg "create_repo_response w" rn ot on pv ds] untruthy
    by (auto simp: migrate_steps_def fst_io_bind fst_io_seq split: outcome.splits)
qed

lemma steps_push_failed:
  assumes "\<forall>url. url \<noteq> [] \<and>
     snd (create_github_repo cfg (create_repo_response w) rn ot on pv ds) = Returns (Some url) \<longrightarrow>
     snd (push_to_github cfg w (local_clone_dir rn (clock w)) url) \<noteq> Returns True"
  shows "hard_upto 3 (fst (migrate_steps cfg w u ot on rn pv ds ts ars cr))"
proof -
  have c: "hard_upto 3 (fst (clone_from_gitlab cfg w u (local_clone_dir rn (clock w))))"
    by (rule hard_upto_mono [OF clone_upto]) simp
  have d: "hard_upto 3 (fst (create_github_repo cfg (create_repo_response w) rn ot on pv ds))"
    by (rule hard_upto_mono [OF create_upto]) simp
  have p: "\<not> b" if "truthy x"
    and "snd (create_github_repo cfg (create_repo_response w) rn ot on pv ds) = Returns x"
    and "snd (push_to_github cfg w (local_clone_dir rn (clock w)) (py_str x)) = Returns b" for x b
    using assms that by (cases x) (auto simp: truthy_def py_str_def)
  show ?thesis
    using c d push_upto [of cfg w "local_clone_dir rn (clock w)"] p
    by (auto simp: migrate_steps_def fst_io_bind fst_io_seq split: outcome.splits)
qed

lemma run_events:
  "e \<in> set (fst (migrate_repository cfg w u ot on rn pv ds ts ars cr)) \<Longrightarrow>
   e \<in> set (fst (migrate_steps cfg w u ot on rn pv ds ts ars cr))
   \<or> (\<not> soft_step e \<and> (step_of e = None \<or> step_of e = Some 7))"
  using cleanup_only cleanup_hard
  by (fastforce simp: migrate_repository_def fst_try_finally only_step_def)

lemma step_mem_steps: "e \<in> set t \<Longrightarrow> step_of e = Some j \<Longrightarrow> j \<in> set (steps t)"
  by (induction t) (auto split: option.splits)

lemma hard_uptoD: "hard_upto k t \<Longrightarrow> e \<in> set t \<Longrightarrow> \<not> soft_step e \<and> (\<forall>j. step_of e = Some j \<longrightarrow> j \<le> k)"
  by (simp add: hard_upto_def)

section \<open>C1: the order of the steps and the hard steps\<close>

text \<open>
  C1. In the trace of every call of \<open>migrate_repository\<close> the steps are in order
  (clone, creation of the target repository, push, releases, settings, team access,
  removal of the clone directory). A request that creates the target repository is in
  the trace only if \<open>clone_from_gitlab\<close> returned the repository; an event of the push
  only if, moreover, \<open>create_github_repo\<close> returned a non-empty clone URL; and a request
  of the releases, settings or team access steps only if, moreover, \<open>push_to_github\<close>
  returned \<open>True\<close>. So when the clone fails nothing is sent to the destination, and
  when the creation fails nothing is pushed.
\<close>

theorem steps_in_order_and_gated:
  fixes cfg w gitlab_url owner_type owner_name new_repo_name priv descr team_slug
    apply_repo_settings copy_releases
  defines "dir \<equiv> local_clone_dir new_repo_name (clock w)"
  defines "tr \<equiv> fst (migrate_repository cfg w gitlab_url owner_type owner_name new_repo_name
                     priv descr team_slug apply_repo_settings copy_releases)"
  defines "cloned \<equiv> snd (clone_from_gitlab cfg w gitlab_url dir)"
  defines "created \<equiv> snd (create_github_repo cfg (create_repo_response w) new_repo_name
                          owner_type owner_name priv descr)"
  shows "sorted (steps tr)
    \<and> ((\<exists>e \<in> set tr. step_of e = Some 2) \<longrightarrow> cloned = Returns (Some dir))
    \<and> ((\<exists>e \<in> set tr. step_of e = Some 3) \<longrightarrow>
         cloned = Returns (Some dir) \<and> (\<exists>url. url \<noteq> [] \<and> created = Returns (Some url)))
    \<and> ((\<exists>e \<in> set tr. soft_step e) \<longrightarrow>
         cloned = Returns (Some dir)
         \<and> (\<exists>url. url \<noteq> [] \<and> created = Returns (Some url)
                \<and> snd (push_to_github cfg w dir url) = Returns True))
    \<and> (cloned \<noteq> Returns (Some dir) \<longrightarrow>
         (\<forall>e \<in> set tr. \<not> soft_step e \<and> step_of e \<noteq> Some 2 \<and> step_of e \<noteq> Some 3))
    \<and> ((\<forall>url. url \<noteq> [] \<longrightarrow> created \<noteq> Returns (Some url)) \<longrightarrow>
         (\<forall>e \<in> set tr. \<not> soft_step e \<and> step_of e \<noteq> Some 3))"
proof -
  let ?st = "fst (migrate_steps cfg w gitlab_url owner_type owner_name new_repo_name
                     priv descr team_slug apply_repo_settings copy_releases)"
  have ev: "e \<in> set ?st \<or> (\<not> soft_step e \<and> (step_of e = None \<or> step_of e = Some 7))"
    if "e \<in> set tr" for e
    using that unfolding tr_def by (rule run_events)
  have order: "sorted (steps tr)"
    using ordered_run [of cfg w gitlab_url owner_type owner_name new_repo_name
        priv descr team_slug apply_repo_settings copy_releases]
    by (simp add: ordered_def tr_def)
  have nc: "\<not> soft_step e \<and> step_of e \<noteq> Some 2 \<and> step_of e \<noteq> Some 3"
    if "cloned \<noteq> Returns (Some dir)" and "e \<in> set tr" for e
  proof -
    have "hard_upto 1 ?st"
      using that(1) unfolding cloned_def dir_def by (rule steps_clone_failed)
    then show ?thesis
      using ev [OF that(2)] hard_uptoD [of 1 ?st e] by fastforce
  qed
  have nr: "\<not> soft_step e \<and> step_of e \<noteq> Some 3"
    if "\<forall>url. url \<noteq> [] \<longrightarrow> created \<noteq> Returns (Some url)" and "e \<in> set tr" for e
  proof -
    have "hard_upto 2 ?st"
      using that(1) unfolding created_def by (rule steps_create_failed)
    then show ?thesis
      using ev [OF that(2)] hard_uptoD [of 2 ?st e] by fastforce
  qed
  have np: "\<not> soft_step e"
    if "\<forall>url. url \<noteq> [] \<and> created = Returns (Some url) \<longrightarrow>
          snd (push_to_github cfg w dir url) \<noteq> Returns True" and "e \<in> set tr" for e
  proof -
    have "hard_upto 3 ?st"
      using that(1) unfolding created_def dir_def by (rule steps_push_failed)
    then show ?thesis
      using ev [OF that(2)] hard_uptoD [of 3 ?st e] by fastforce
  qed
  have two: "(\<exists>e \<in> set tr. step_of e = Some 2) \<longrightarrow> cloned = Returns (Some dir)"
    using nc by blast
  have three: "(\<exists>e \<in> set tr. step_of e = Some 3) \<longrightarrow>
         cloned = Returns (Some dir) \<and> (\<exists>url. url \<noteq> [] \<and> created = Returns (Some url))"
    using nc nr by blast
  have soft: "(\<exists>e \<in> set tr. soft_step e) \<longrightarrow>
         cloned = Returns (Some dir)
         \<and> (\<exists>url. url \<noteq> [] \<and> created = Returns (Some url)
                \<and> snd (push_to_github cfg w dir url) = Returns True)"
    using nc np by blast
  from order two three soft nc nr show ?thesis
    by blast
qed

theorem steps_in_order_and_gated_witness:
  "snd (clone_from_gitlab example_config calm_world ''https://gitlab.example/group/proj.git''
          (local_clone_dir ''proj-copy'' (clock calm_world)))
     = Returns (Some (local_clone_dir ''proj-copy'' (clock calm_world)))
   \<and> (\<exists>url. url \<noteq> []
         \<and> snd (create_github_repo example_config (create_repo_response calm_world)
                  ''proj-copy'' ''user'' None True []) = Returns (Some url)
         \<and> snd (push_to_github example_config calm_world
                  (local_clone_dir ''proj-copy'' (clock calm_world)) url) = Returns True)
   \<and> sorted (steps (fst (migrate_repository example_config calm_world
         ''https://gitlab.example/group/proj.git'' ''user'' None ''proj-copy'' True [] None
         True True)))
   \<and> \<not> (\<exists>e \<in> set (fst (migrate_repository example_config
                (calm_world\<lparr>clone_from_result := Raises (GitCommandError ''not found'')\<rparr>)
                ''https://gitlab.example/group/proj.git'' ''user'' None ''proj-copy'' True []
                None True True)).
           soft_step e \<or> step_of e = Some 2 \<or> step_of e = Some 3)"
proof -
  let ?lost = "calm_world\<lparr>clone_from_result := Raises (GitCommandError ''not found'')\<rparr>"
  have soft: "\<exists>e \<in> set (fst (migrate_repository example_config calm_world
         ''https://gitlab.example/group/proj.git'' ''user'' None ''proj-copy'' True [] None
         True True)). soft_step e"
    by (simp add: eval_defs)
  have failed: "snd (clone_from_gitlab example_config ?lost
          ''https://gitlab.example/group/proj.git'' (local_clone_dir ''proj-copy'' (clock ?lost)))
     \<noteq> Returns (Some (local_clone_dir ''proj-copy'' (clock ?lost)))"
    by (simp add: eval_defs)
  show ?thesis
    using soft failed
      steps_in_order_and_gated [of example_config calm_world
        "''https://gitlab.example/group/proj.git''" "''user''" None "''proj-copy''" True "[]"
        None True True]
      steps_in_order_and_gated [of example_config ?lost
        "''https://gitlab.example/group/proj.git''" "''user''" None "''proj-copy''" True "[]"
        None True True]
    by blast
qed

section \<open>C2: the removal of the clone directory\<close>

lemma rmtree_step: "is_rmtree e \<Longrightarrow> step_of e = Some 7"
  by (cases e) simp_all

lemma no_rmtree_in_steps:
  "filter is_rmtree (fst (migrate_steps cfg w u ot on rn pv ds ts ars cr)) = []"
proof -
  have "\<not> is_rmtree e" if "e \<in> set (fst (migrate_steps cfg w u ot on rn pv ds ts ars cr))" for e
  proof
    assume "is_rmtree e"
    then have "step_of e = Some 7" by (rule rmtree_step)
    with that have "7 \<in> set (steps (fst (migrate_steps cfg w u ot on rn pv ds ts ars cr)))"
      by (rule step_mem_steps)
    then show False
      using ordered_steps [of cfg w u ot on rn pv ds ts ars cr] by (fastforce simp: ordered_def)
  qed
  then show ?thesis
    by (simp add: filter_empty_conv)
qed

lemma on_rm_error_no_rmtree: "filter is_rmtree (fst (on_rm_error err)) = []"
  by (simp add: on_rm_error_def io_simps split: outcome.splits)

lemma rmtree_onerror_no_rmtree: "filter is_rmtree (fst (rmtree_onerror errs)) = []"
  by (induction errs) (simp_all add: io_simps on_rm_error_no_rmtree split: outcome.splits)

lemma rmtree_once: "filter is_rmtree (fst (rmtree d errs)) = [RmTree d]"
  by (simp add: rmtree_def io_simps rmtree_onerror_no_rmtree)

lemma cleanup_once: "filter is_rmtree (fst (remove_local_clone w d s)) = [RmTree d]"
  by (simp add: remove_local_clone_def io_simps rmtree_once split: outcome.splits)

lemma cleanup_returns: "snd (remove_local_clone w d s) = Returns ()"
  by (simp add: remove_local_clone_def io_simps split: outcome.splits)

lemma cleanup_logs:
  "snd (rmtree d (rmtree_errors w)) = Raises e \<Longrightarrow>
   Log ERROR (''Error while removing folder '' @ d @ '': '' @ exn_str e)
     \<in> set (fst (remove_local_clone w d s))"
  by (simp add: remove_local_clone_def io_simps split: outcome.splits)

lemma steps_ignore_cleanup_world:
  "migrate_steps cfg (w\<lparr>rmtree_errors := errs, is_dir_result := d\<rparr>) u ot on rn pv ds ts ars cr
   = migrate_steps cfg w u ot on rn pv ds ts ars cr"
proof -
  let ?w = "w\<lparr>rmtree_errors := errs, is_dir_result := d\<rparr>"
  have a: "clone_from_gitlab cfg ?w u dir = clone_from_gitlab cfg w u dir" for dir
    by (simp add: clone_from_gitlab_def cong del: if_weak_cong)
  have b: "push_to_github cfg ?w dir url = push_to_github cfg w dir url" for dir url
    by (simp add: push_to_github_def cong del: if_weak_cong)
  have c: "copy_gitlab_releases_to_github cfg ?w u ot on rn
      = copy_gitlab_releases_to_github cfg w u ot on rn"
    by (simp add: copy_gitlab_releases_to_github_def cong del: if_weak_cong)
  have e: "update_github_repo_settings cfg ?w ot on rn x1 x2 x3 x4 x5 x6 x7
      = update_github_repo_settings cfg w ot on rn x1 x2 x3 x4 x5 x6 x7" for x1 x2 x3 x4 x5 x6 x7
    by (simp add: update_github_repo_settings_def cong del: if_weak_cong)
  show ?thesis
    by (simp add: migrate_steps_def a b c e cong del: if_weak_cong)
qed

lemma run_result: "snd (migrate_repository cfg w u ot on rn pv ds ts ars cr)
   = snd (migrate_steps cfg w u ot on rn pv ds ts ars cr)"
  by (simp add: migrate_repository_def snd_try_finally cleanup_returns)

text \<open>
  C2. Whatever the steps of the job did (returned \<open>True\<close>, returned \<open>False\<close> or
  raised), the trace of \<open>migrate_repository\<close> holds exactly one call of
  \<open>shutil.rmtree\<close>, on the clone directory of the job; the result of
  \<open>migrate_repository\<close> is the result of its steps and does not depend on what the
  removal meets; and when the removal raises (the retry of the callback failed and
  re-raised), the exception is logged by the \<open>finally\<close> block.
\<close>

theorem clone_directory_removed_once:
  fixes cfg w gitlab_url owner_type owner_name new_repo_name priv descr team_slug
    apply_repo_settings copy_releases
  defines "dir \<equiv> local_clone_dir new_repo_name (clock w)"
  defines "run \<equiv> migrate_repository cfg w gitlab_url owner_type owner_name new_repo_name
                     priv descr team_slug apply_repo_settings copy_releases"
  shows "filter is_rmtree (fst run) = [RmTree dir]
    \<and> snd run = snd (migrate_steps cfg w gitlab_url owner_type owner_name new_repo_name
                       priv descr team_slug apply_repo_settings copy_releases)
    \<and> snd (migrate_repository cfg (w\<lparr>rmtree_errors := errs, is_dir_result := gone\<rparr>)
             gitlab_url owner_type owner_name new_repo_name priv descr team_slug
             apply_repo_settings copy_releases) = snd run
    \<and> (snd (rmtree dir (rmtree_errors w)) = Raises e \<longrightarrow>
         Log ERROR (''Error while removing folder '' @ dir @ '': '' @ exn_str e)
           \<in> set (fst run))"
proof -
  have once: "filter is_rmtree (fst run) = [RmTree dir]"
    by (simp add: run_def dir_def migrate_repository_def fst_try_finally no_rmtree_in_steps
        cleanup_once)
  have same: "snd run = snd (migrate_steps cfg w gitlab_url owner_type owner_name new_repo_name
                       priv descr team_slug apply_repo_settings copy_releases)"
    by (simp add: run_def run_result)
  have indep: "snd (migrate_repository cfg (w\<lparr>rmtree_errors := errs, is_dir_result := gone\<rparr>)
             gitlab_url owner_type owner_name new_repo_name priv descr team_slug
             apply_repo_settings copy_releases) = snd run"
    by (simp add: run_def run_result steps_ignore_cleanup_world)
  have logged: "snd (rmtree dir (rmtree_errors w)) = Raises e \<longrightarrow>
         Log ERROR (''Error while removing folder '' @ dir @ '': '' @ exn_str e)
           \<in> set (fst run)"
  proof
    assume "snd (rmtree dir (rmtree_errors w)) = Raises e"
    then have "Log ERROR (''Error while removing folder '' @ dir @ '': '' @ exn_str e)
      \<in> set (fst (remove_local_clone w dir s))" for s
      by (rule cleanup_logs)
    then show "Log ERROR (''Error while removing folder '' @ dir @ '': '' @ exn_str e)
      \<in> set (fst run)"
      unfolding run_def migrate_repository_def fst_try_finally set_append dir_def
      by blast
  qed
  from once same indep logged show ?thesis
    by blast
qed

theorem clone_directory_removed_once_witness:
  "snd (rmtree (local_clone_dir ''proj-copy'' (clock locked_world)) (rmtree_errors locked_world))
     = Raises (OtherException ''[WinError 5] Access is denied'')
   \<and> Log ERROR (''Error while removing folder '' @ local_clone_dir ''proj-copy'' (clock locked_world)
         @ '': '' @ exn_str (OtherException ''[WinError 5] Access is denied''))
       \<in> set (fst (migrate_repository example_config locked_world
            ''https://gitlab.example/group/proj.git'' ''user'' None ''proj-copy'' True [] None
            True True))
   \<and> snd (migrate_repository example_config locked_world
            ''https://gitlab.example/group/proj.git'' ''user'' None ''proj-copy'' True [] None
            True True) = Returns True"
proof -
  have raised: "snd (rmtree (local_clone_dir ''proj-copy'' (clock locked_world))
       (rmtree_errors locked_world)) = Raises (OtherException ''[WinError 5] Access is denied'')"
    by (simp add: locked_world_def eval_defs)
  have calm: "snd (migrate_steps example_config locked_world
            ''https://gitlab.example/group/proj.git'' ''user'' None ''proj-copy'' True [] None
            True True) = Returns True"
    by (simp add: locked_world_def eval_defs)
  show ?thesis
    using raised calm
      clone_directory_removed_once [where cfg = example_config and w = locked_world
        and gitlab_url = "''https://gitlab.example/group/proj.git''" and owner_type = "''user''"
        and owner_name = None and new_repo_name = "''proj-copy''" and priv = True
        and descr = "[]" and team_slug = None and apply_repo_settings = True
        and copy_releases = True
        and e = "OtherException ''[WinError 5] Access is denied''"]
    by simp
qed

section \<open>The results of the steps\<close>

lemma identity_returns:
  "answered [200] a \<Longrightarrow> \<exists>x. snd (get_authenticated_username cfg a) = Returns x"
  by (auto simp: answered_def get_authenticated_username_def io_simps split: outcome.splits)

lemma release_returns:
  assumes "release_answered rw"
  shows "\<exists>x. snd (create_github_release cfg rw ot on rn tg nm bd) = Returns x"
proof -
  obtain r where r: "rel_post rw = Returns r"
    and j: "status_code r = 201 \<or> status_code r = 200 \<Longrightarrow> \<exists>j. resp_json r = Returns j"
    using assms by (auto simp: release_answered_def answered_def split: outcome.splits)
  have post: "\<exists>x. snd (io_bind (perform ev (rel_post rw))
              (\<lambda>r. if status_code r = 201 \<or> status_code r = 200
                 then io_seq (log INFO m1) (io_bind (json_of r) (\<lambda>j. ret (Some j)))
                 else io_seq (log WARNING (m2 r)) (ret None))) = Returns x" for ev m1 m2
    using r j by (auto simp: io_simps)
  obtain x where x: "snd (get_authenticated_username cfg (rel_identity rw)) = Returns x"
    using assms identity_returns [of "rel_identity rw" cfg] by (auto simp: release_answered_def)
  show ?thesis
    unfolding create_github_release_def Let_def
    using post x by (simp add: io_simps)
qed

lemma copy_release_returns:
  "release_answered rw \<Longrightarrow> \<exists>x. snd (copy_release cfg rw ot on rn gr) = Returns x"
  by (simp add: copy_release_def Let_def release_returns)

lemma loop_returns:
  "(\<And>j. j < length rs \<Longrightarrow> release_answered (rws (i + j))) \<Longrightarrow>
   snd (copy_releases_loop cfg rws ot on rn i rs) = Returns ()"
proof (induction rs arbitrary: i)
  case Nil
  then show ?case by simp
next
  case (Cons gr rest)
  have "release_answered (rws i)"
    using Cons.prems [of 0] by simp
  then obtain x where x: "snd (copy_release cfg (rws i) ot on rn gr) = Returns x"
    using copy_release_returns by blast
  have "snd (copy_releases_loop cfg rws ot on rn (Suc i) rest) = Returns ()"
    using Cons.prems by (intro Cons.IH) (metis Suc_less_eq add_Suc_shift length_Cons)
  with x show ?case
    by (simp add: io_simps)
qed

lemma releases_returns:
  assumes "answered [200] (releases_response w)" and "\<And>i. release_answered (release_worlds w i)"
  shows "snd (copy_gitlab_releases_to_github cfg w u ot on rn) = Returns ()"
proof -
  have loop: "snd (copy_releases_loop cfg (release_worlds w) ot on rn 0 rs) = Returns ()" for rs
    using assms(2) by (intro loop_returns) simp
  show ?thesis
    using assms(1) loop
    by (auto simp: copy_gitlab_releases_to_github_def get_gitlab_releases_def answered_def
        io_simps Let_def split: outcome.splits)
qed

lemma settings_returns:
  assumes "answered [200] (settings_identity w)" and "answered [] (settings_response w)"
  shows "snd (update_github_repo_settings cfg w ot on rn a b c d e f g) = Returns ()"
proof -
  obtain x where x: "snd (get_authenticated_username cfg (settings_identity w)) = Returns x"
    using assms(1) identity_returns by blast
  obtain r where r: "settings_response w = Returns r"
    using assms(2) by (auto simp: answered_def split: outcome.splits)
  show ?thesis
    unfolding update_github_repo_settings_def Let_def
    using x r by (simp add: io_simps)
qed

lemma team_returns:
  assumes "answered [] a"
  shows "snd (add_default_access_permissions cfg a org rn ts pm) = Returns ()"
  using assms
  by (auto simp: add_default_access_permissions_def answered_def io_simps split: outcome.splits)

lemma steps_clone_raises:
  "snd (clone_from_gitlab cfg w u (local_clone_dir rn (clock w))) = Raises e \<Longrightarrow>
   snd (migrate_steps cfg w u ot on rn pv ds ts ars cr) = Raises e"
  by (simp add: migrate_steps_def io_simps)

lemma steps_clone_none:
  "snd (clone_from_gitlab cfg w u (local_clone_dir rn (clock w))) = Returns None \<Longrightarrow>
   snd (migrate_steps cfg w u ot on rn pv ds ts ars cr) = Returns False"
  by (simp add: migrate_steps_def io_simps)

lemma steps_create_raises:
  "snd (clone_from_gitlab cfg w u (local_clone_dir rn (clock w))) = Returns (Some d) \<Longrightarrow>
   snd (create_github_repo cfg (create_repo_response w) rn ot on pv ds) = Raises e \<Longrightarrow>
   snd (migrate_steps cfg w u ot on rn pv ds ts ars cr) = Raises e"
  by (simp add: migrate_steps_def io_simps)

lemma steps_create_none:
  "snd (clone_from_gitlab cfg w u (local_clone_dir rn (clock w))) = Returns (Some d) \<Longrightarrow>
   snd (create_github_repo cfg (create_repo_response w) rn ot on pv ds) = Returns x \<Longrightarrow>
   \<not> truthy x \<Longrightarrow>
   snd (migrate_steps cfg w u ot on rn pv ds ts ars cr) = Returns False"
  by (simp add: migrate_steps_def io_simps)

lemma steps_push_raises:
  "snd (clone_from_gitlab cfg w u (local_clone_dir rn (clock w))) = Returns (Some d) \<Longrightarrow>
   snd (create_github_repo cfg (create_repo_response w) rn ot on pv ds) = Returns (Some url) \<Longrightarrow>
   url \<noteq> [] \<Longrightarrow>
   snd (push_to_github cfg w (local_clone_dir rn (clock w)) url) = Raises e \<Longrightarrow>
   snd (migrate_steps cfg w u ot on rn pv ds ts ars cr) = Raises e"
  by (simp add: migrate_steps_def io_simps truthy_def py_str_def)

lemma steps_push_false:
  "snd (clone_from_gitlab cfg w u (local_clone_dir rn (clock w))) = Returns (Some d) \<Longrightarrow>
   snd (create_github_repo cfg (create_repo_response w) rn ot on pv ds) = Returns (Some url) \<Longrightarrow>
   url \<noteq> [] \<Longrightarrow>
   snd (push_to_github cfg w (local_clone_dir rn (clock w)) url) = Returns False \<Longrightarrow>
   snd (migrate_steps cfg w u ot on rn pv ds ts ars cr) = Returns False"
  by (simp add: migrate_steps_def io_simps truthy_def py_str_def)

lemma steps_pushed:
  "snd (clone_from_gitlab cfg w u (local_clone_dir rn (clock w))) = Returns (Some d) \<Longrightarrow>
   snd (create_github_repo cfg (create_repo_response w) rn ot on pv ds) = Returns (Some url) \<Longrightarrow>
   url \<noteq> [] \<Longrightarrow>
   snd (push_to_github cfg w (local_clone_dir rn (clock w)) url) = Returns True \<Longrightarrow>
   snd (migrate_steps cfg w u ot on rn pv ds ts ars cr) =
     (case snd (if cr then io_seq (log INFO ''Copying GitLab releases to GitHub...'')
                    (copy_gitlab_releases_to_github cfg w u ot on rn) else ret ()) of
        Raises e \<Rightarrow> Raises e
      | Returns x \<Rightarrow>
     (case snd (if ars then update_github_repo_settings cfg w ot on rn
                    True True True True True True False else ret ()) of
        Raises e \<Rightarrow> Raises e
      | Returns x \<Rightarrow>
     (case snd (if truthy ts \<and> lower ot = ''org''
             then add_default_access_permissions cfg (team_response w) (py_str on) rn
                    (py_str ts) ''push'' else ret ()) of
        Raises e \<Rightarrow> Raises e
      | Returns x \<Rightarrow> Returns True)))"
proof -
  assume a: "snd (clone_from_gitlab cfg w u (local_clone_dir rn (clock w))) = Returns (Some d)"
    "snd (create_github_repo cfg (create_repo_response w) rn ot on pv ds) = Returns (Some url)"
    "snd (push_to_github cfg w (local_clone_dir rn (clock w)) url) = Returns True"
  assume "url \<noteq> []"
  then have t: "truthy (Some url)" and p: "py_str (Some url) = url"
    by (simp_all add: truthy_def py_str_def)
  show ?thesis
    by (simp add: migrate_steps_def io_simps a t p split: outcome.split)
qed

lemma steps_pushed_true_or_raises:
  assumes "snd (clone_from_gitlab cfg w u (local_clone_dir rn (clock w))) = Returns (Some d)"
    and "snd (create_github_repo cfg (create_repo_response w) rn ot on pv ds) = Returns (Some url)"
    and "url \<noteq> []"
    and "snd (push_to_github cfg w (local_clone_dir rn (clock w)) url) = Returns True"
  shows "snd (migrate_steps cfg w u ot on rn pv ds ts ars cr) \<noteq> Returns False"
  unfolding steps_pushed [OF assms]
  by (simp split: outcome.splits)

lemma steps_pushed_answered:
  assumes "snd (clone_from_gitlab cfg w u (local_clone_dir rn (clock w))) = Returns (Some d)"
    and "snd (create_github_repo cfg (create_repo_response w) rn ot on pv ds) = Returns (Some url)"
    and "url \<noteq> []"
    and "snd (push_to_github cfg w (local_clone_dir rn (clock w)) url) = Returns True"
    and "soft_steps_answered w"
  shows "snd (migrate_steps cfg w u ot on rn pv ds ts ars cr) = Returns True"
proof -
  have a: "snd (copy_gitlab_releases_to_github cfg w u ot on rn) = Returns ()"
    using assms(5) by (intro releases_returns) (simp_all add: soft_steps_answered_def)
  have b: "snd (update_github_repo_settings cfg w ot on rn True True True True True True False)
      = Returns ()"
    using assms(5) by (intro settings_returns) (simp_all add: soft_steps_answered_def)
  have c: "snd (add_default_access_permissions cfg (team_response w) (py_str on) rn
                    (py_str ts) ''push'') = Returns ()"
    using assms(5) by (intro team_returns) (simp_all add: soft_steps_answered_def)
  show ?thesis
    unfolding steps_pushed [OF assms(1-4)]
    using a b c by (simp add: io_simps)
qed

section \<open>C5: the result of a job\<close>

text \<open>
  C5 (as amended). When \<open>migrate_repository\<close> returns, it returns a boolean that is
  \<open>True\<close> exactly when the clone, the creation of the target repository and the push
  all succeeded. When these three succeeded and every request of the later steps
  (releases, settings, team access) is answered, whatever the status codes of the
  answers, it returns \<open>True\<close>. An exception raised by a call of a later step is not
  caught by \<open>migrate_repository\<close>: the job then ends with that exception.
\<close>

theorem boolean_result_when_no_exception:
  fixes cfg w gitlab_url owner_type owner_name new_repo_name priv descr team_slug
    apply_repo_settings copy_releases
  defines "dir \<equiv> local_clone_dir new_repo_name (clock w)"
  defines "run \<equiv> migrate_repository cfg w gitlab_url owner_type owner_name new_repo_name
                     priv descr team_slug apply_repo_settings copy_releases"
  defines "hard_steps_succeeded \<equiv>
     snd (clone_from_gitlab cfg w gitlab_url dir) = Returns (Some dir)
     \<and> (\<exists>url. url \<noteq> []
           \<and> snd (create_github_repo cfg (create_repo_response w) new_repo_name owner_type
                    owner_name priv descr) = Returns (Some url)
           \<and> snd (push_to_github cfg w dir url) = Returns True)"
  shows "(snd run = Returns b \<longrightarrow> (b \<longleftrightarrow> hard_steps_succeeded))
    \<and> (hard_steps_succeeded \<and> soft_steps_answered w \<longrightarrow> snd run = Returns True)"
proof -
  let ?st = "snd (migrate_steps cfg w gitlab_url owner_type owner_name new_repo_name
                     priv descr team_slug apply_repo_settings copy_releases)"
  let ?cloned = "snd (clone_from_gitlab cfg w gitlab_url dir)"
  let ?created = "snd (create_github_repo cfg (create_repo_response w) new_repo_name owner_type
                    owner_name priv descr)"
  have run: "snd run = ?st"
    by (simp add: run_def run_result)
  have ok_not_false: "?st \<noteq> Returns False" if hard_steps_succeeded
    using that steps_pushed_true_or_raises unfolding hard_steps_succeeded_def dir_def by blast
  have ok_true: "?st = Returns True" if hard_steps_succeeded and "soft_steps_answered w"
    using that steps_pushed_answered unfolding hard_steps_succeeded_def dir_def by blast
  have not_ok: "?st \<noteq> Returns True" if "\<not> hard_steps_succeeded"
  proof (cases ?cloned)
    case (Raises e)
    then show ?thesis
      using steps_clone_raises unfolding dir_def by fastforce
  next
    case (Returns r)
    show ?thesis
    proof (cases r)
      case None
      with Returns show ?thesis
        using steps_clone_none unfolding dir_def by fastforce
    next
      case (Some d)
      then have cl: "?cloned = Returns (Some dir)"
        using Returns clone_result by fastforce
      show ?thesis
      proof (cases ?created)
        case (Raises e)
        with cl show ?thesis
          using steps_create_raises unfolding dir_def by fastforce
      next
        case created: (Returns x)
        show ?thesis
        proof (cases "truthy x")
          case False
          with cl created show ?thesis
            using steps_create_none unfolding dir_def by fastforce
        next
          case True
          then obtain url where url: "x = Some url" "url \<noteq> []"
            by (cases x) (auto simp: truthy_def)
          show ?thesis
          proof (cases "snd (push_to_github cfg w dir url)")
            case (Raises e)
            with cl created url show ?thesis
              using steps_push_raises unfolding dir_def by fastforce
          next
            case pushed: (Returns p)
            have "\<not> p"
              using that cl created url pushed unfolding hard_steps_succeeded_def by auto
            with cl created url pushed show ?thesis
              using steps_push_false unfolding dir_def by fastforce
          qed
        qed
      qed
    qed
  qed
  have one: "snd run = Returns b \<longrightarrow> (b \<longleftrightarrow> hard_steps_succeeded)"
    using run ok_not_false not_ok by (cases b) auto
  have two: "hard_steps_succeeded \<and> soft_steps_answered w \<longrightarrow> snd run = Returns True"
    using run ok_true by simp
  from one two show ?thesis
    by blast
qed

theorem boolean_result_when_no_exception_witness:
  "soft_steps_answered refusing_world
   \<and> snd (migrate_repository example_config refusing_world
            ''https://gitlab.example/group/proj.git'' ''org'' (Some ''acme'') ''proj-copy'' True []
            (Some ''devs'') True True) = Returns True
   \<and> snd (migrate_repository example_config
            (calm_world\<lparr>push_result := Raises (GitCommandError ''remote rejected'')\<rparr>)
            ''https://gitlab.example/group/proj.git'' ''org'' (Some ''acme'') ''proj-copy'' True []
            (Some ''devs'') True True) = Returns False"
proof -
  let ?rejected = "calm_world\<lparr>push_result := Raises (GitCommandError ''remote rejected'')\<rparr>"
  let ?url = "''https://github.com/me/proj-copy.git''"
  have answered: "soft_steps_answered refusing_world"
    by (simp add: soft_steps_answered_def release_answered_def answered_def refusing_world_def
        refusal_def calm_world_def answer_def)
  have hard: "snd (clone_from_gitlab example_config refusing_world
        ''https://gitlab.example/group/proj.git'' (local_clone_dir ''proj-copy'' (clock refusing_world)))
       = Returns (Some (local_clone_dir ''proj-copy'' (clock refusing_world)))
     \<and> ?url \<noteq> []
     \<and> snd (create_github_repo example_config (create_repo_response refusing_world) ''proj-copy''
           ''org'' (Some ''acme'') True []) = Returns (Some ?url)
     \<and> snd (push_to_github example_config refusing_world
           (local_clone_dir ''proj-copy'' (clock refusing_world)) ?url) = Returns True"
    by (simp add: refusing_world_def refusal_def eval_defs)
  have returned: "snd (migrate_repository example_config ?rejected
            ''https://gitlab.example/group/proj.git'' ''org'' (Some ''acme'') ''proj-copy'' True []
            (Some ''devs'') True True) = Returns False
      \<or> snd (migrate_repository example_config ?rejected
            ''https://gitlab.example/group/proj.git'' ''org'' (Some ''acme'') ''proj-copy'' True []
            (Some ''devs'') True True) = Returns True"
    by (simp add: eval_defs)
  have not_pushed: "snd (push_to_github example_config ?rejected
           (local_clone_dir ''proj-copy'' (clock ?rejected)) url) \<noteq> Returns True" for url
    by (simp add: push_to_github_def io_simps calm_world_def Let_def)
  have t: "snd (migrate_repository example_config refusing_world
            ''https://gitlab.example/group/proj.git'' ''org'' (Some ''acme'') ''proj-copy'' True []
            (Some ''devs'') True True) = Returns True"
    using answered hard
      boolean_result_when_no_exception [of example_config refusing_world
        "''https://gitlab.example/group/proj.git''" "''org''" "Some ''acme''" "''proj-copy''"
        True "[]" "Some ''devs''" True True True]
    by blast
  have f: "snd (migrate_repository example_config ?rejected
            ''https://gitlab.example/group/proj.git'' ''org'' (Some ''acme'') ''proj-copy'' True []
            (Some ''devs'') True True) = Returns False"
    using returned not_pushed
      boolean_result_when_no_exception [of example_config ?rejected
        "''https://gitlab.example/group/proj.git''" "''org''" "Some ''acme''" "''proj-copy''"
        True "[]" "Some ''devs''" True True True]
    by blast
  from answered t f show ?thesis
    by blast
qed

text \<open>The claim as it was stated fails: clone, creation and push succeed, the request
  for the releases raises, and the job returns no boolean.\<close>

theorem soft_step_exception_counterexample:
  "snd (clone_from_gitlab example_config unreachable_gitlab_world
          ''https://gitlab.example/group/proj.git'' ''./temp_clone_proj-copy_5'')
     = Returns (Some ''./temp_clone_proj-copy_5'')
   \<and> snd (create_github_repo example_config (create_repo_response unreachable_gitlab_world)
            ''proj-copy'' ''user'' None True [])
       = Returns (Some ''https://github.com/me/proj-copy.git'')
   \<and> snd (push_to_github example_config unreachable_gitlab_world ''./temp_clone_proj-copy_5''
            ''https://github.com/me/proj-copy.git'') = Returns True
   \<and> local_clone_dir ''proj-copy'' (clock unreachable_gitlab_world) = ''./temp_clone_proj-copy_5''
   \<and> snd (migrate_repository example_config unreachable_gitlab_world
            ''https://gitlab.example/group/proj.git'' ''user'' None ''proj-copy'' True [] None
            True True) = Raises (OtherException ''Connection refused'')"
  by (simp add: unreachable_gitlab_world_def eval_defs)

section \<open>C6: the list of the releases\<close>

lemma releases_empty:
  assumes "snd (get_gitlab_releases cfg (releases_response w) (parse_gitlab_project_path u))
             = Returns []"
  shows "copy_gitlab_releases_to_github cfg w u ot on rn =
     (fst (get_gitlab_releases cfg (releases_response w) (parse_gitlab_project_path u))
        @ [Log INFO ''No GitLab releases found (or not accessible). Skipping release copy.''],
      Returns ())"
  using assms
  by (simp add: prod_eq_iff copy_gitlab_releases_to_github_def Let_def io_simps)

text \<open>
  C6 (as amended). When GitLab answers the request for the releases with status 200,
  \<open>get_gitlab_releases\<close> returns the decoded list, in the order of the body; when it
  answers with another status, \<open>get_gitlab_releases\<close> logs a warning and returns the
  empty list; and with an empty list \<open>copy_gitlab_releases_to_github\<close> logs and
  returns, so the job goes on. When the request raises, or when the body of a status
  200 answer does not decode, the exception is raised to the caller.
\<close>

theorem release_listing_results:
  "(status_code r = 200 \<and> resp_json r = Returns rs \<longrightarrow>
      get_gitlab_releases cfg (Returns r) p =
        ([HttpGet (GitlabReleases p) (gitlab_headers cfg)], Returns rs))
   \<and> (status_code r \<noteq> 200 \<longrightarrow>
      get_gitlab_releases cfg (Returns r) p =
        ([HttpGet (GitlabReleases p) (gitlab_headers cfg),
          Log WARNING (''Could not fetch GitLab releases: '' @ resp_text r)], Returns []))
   \<and> (snd (get_gitlab_releases cfg (releases_response w) (parse_gitlab_project_path u))
         = Returns [] \<longrightarrow>
      copy_gitlab_releases_to_github cfg w u ot on rn =
        (fst (get_gitlab_releases cfg (releases_response w) (parse_gitlab_project_path u))
           @ [Log INFO ''No GitLab releases found (or not accessible). Skipping release copy.''],
         Returns ()))
   \<and> get_gitlab_releases cfg (Raises e) p =
        ([HttpGet (GitlabReleases p) (gitlab_headers cfg)], Raises e)
   \<and> (status_code r = 200 \<and> resp_json r = Raises e \<longrightarrow>
      get_gitlab_releases cfg (Returns r) p =
        ([HttpGet (GitlabReleases p) (gitlab_headers cfg)], Raises e))"
proof -
  have listed: "status_code r = 200 \<and> resp_json r = Returns rs \<longrightarrow>
      get_gitlab_releases cfg (Returns r) p =
        ([HttpGet (GitlabReleases p) (gitlab_headers cfg)], Returns rs)"
    by (simp add: get_gitlab_releases_def io_bind_def perform_def json_of_def)
  have refused: "status_code r \<noteq> 200 \<longrightarrow>
      get_gitlab_releases cfg (Returns r) p =
        ([HttpGet (GitlabReleases p) (gitlab_headers cfg),
          Log WARNING (''Could not fetch GitLab releases: '' @ resp_text r)], Returns [])"
    by (simp add: get_gitlab_releases_def io_bind_def io_seq_def perform_def log_def ret_def)
  have raised: "get_gitlab_releases cfg (Raises e) p =
        ([HttpGet (GitlabReleases p) (gitlab_headers cfg)], Raises e)"
    by (simp add: get_gitlab_releases_def io_bind_def perform_def)
  have undecoded: "status_code r = 200 \<and> resp_json r = Raises e \<longrightarrow>
      get_gitlab_releases cfg (Returns r) p =
        ([HttpGet (GitlabReleases p) (gitlab_headers cfg)], Raises e)"
    by (simp add: get_gitlab_releases_def io_bind_def perform_def json_of_def)
  from listed refused releases_empty raised undecoded show ?thesis
    by blast
qed

theorem release_listing_results_witness:
  "get_gitlab_releases example_config (refusal 404 ''404 Project Not Found'') ''group%2Fproj'' =
     ([HttpGet (GitlabReleases ''group%2Fproj'') (gitlab_headers example_config),
       Log WARNING ''Could not fetch GitLab releases: 404 Project Not Found''], Returns [])
   \<and> get_gitlab_releases example_config (answer 200 ''[...]'' three_releases) ''group%2Fproj'' =
     ([HttpGet (GitlabReleases ''group%2Fproj'') (gitlab_headers example_config)],
      Returns three_releases)
   \<and> snd (copy_gitlab_releases_to_github example_config refusing_world
            ''https://gitlab.com/group/proj.git'' ''user'' None ''proj-copy'') = Returns ()"
proof -
  let ?no = "\<lparr>status_code = 404, resp_text = ''404 Project Not Found'',
       resp_json = Raises (OtherException ''Expecting value: line 1 column 1 (char 0)'')\<rparr>
       :: gitlab_release list response"
  let ?yes = "\<lparr>status_code = 200, resp_text = ''[...]'', resp_json = Returns three_releases\<rparr>"
  have a: "status_code ?no \<noteq> 200" by simp
  have b: "status_code ?yes = 200 \<and> resp_json ?yes = Returns three_releases" by simp
  have c: "snd (get_gitlab_releases example_config (releases_response refusing_world)
       (parse_gitlab_project_path ''https://gitlab.com/group/proj.git'')) = Returns []"
    by (simp add: refusing_world_def refusal_def eval_defs)
  have one: "get_gitlab_releases example_config (Returns ?no) ''group%2Fproj'' =
     ([HttpGet (GitlabReleases ''group%2Fproj'') (gitlab_headers example_config),
       Log WARNING (''Could not fetch GitLab releases: '' @ resp_text ?no)], Returns [])"
    using a release_listing_results [where r = ?no and cfg = example_config
        and p = "''group%2Fproj''"]
    by blast
  have two: "get_gitlab_releases example_config (Returns ?yes) ''group%2Fproj'' =
     ([HttpGet (GitlabReleases ''group%2Fproj'') (gitlab_headers example_config)],
      Returns three_releases)"
    using b release_listing_results [where r = ?yes and rs = three_releases
        and cfg = example_config and p = "''group%2Fproj''"]
    by blast
  have three: "copy_gitlab_releases_to_github example_config refusing_world
        ''https://gitlab.com/group/proj.git'' ''user'' None ''proj-copy'' =
        (fst (get_gitlab_releases example_config (releases_response refusing_world)
            (parse_gitlab_project_path ''https://gitlab.com/group/proj.git''))
           @ [Log INFO ''No GitLab releases found (or not accessible). Skipping release copy.''],
         Returns ())"
    using c release_listing_results [where cfg = example_config and w = refusing_world
        and u = "''https://gitlab.com/group/proj.git''" and ot = "''user''" and on = None
        and rn = "''proj-copy''"]
    by blast
  from one two three show ?thesis
    by (simp add: refusal_def answer_def)
qed

text \<open>The claim as it was stated fails: an error of the request is raised to the caller,
  and the job that had cloned, created and pushed ends with it.\<close>

theorem release_listing_raises_counterexample:
  "get_gitlab_releases example_config (Raises (OtherException ''Connection refused''))
       ''group%2Fproj'' =
     ([HttpGet (GitlabReleases ''group%2Fproj'') (gitlab_headers example_config)],
      Raises (OtherException ''Connection refused''))
   \<and> snd (get_gitlab_releases example_config (releases_response undecodable_releases_world)
            ''group%2Fproj'')
       = Raises (OtherException ''Expecting value: line 1 column 1 (char 0)'')
   \<and> snd (migrate_repository example_config undecodable_releases_world
            ''https://gitlab.com/group/proj.git'' ''user'' None ''proj-copy'' True [] None
            True True)
       = Raises (OtherException ''Expecting value: line 1 column 1 (char 0)'')"
  by (simp add: undecodable_releases_world_def eval_defs)

section \<open>C4: one creation per release\<close>

lemma release_tags_append [simp]: "release_tags (a @ b) = release_tags a @ release_tags b"
  by (simp add: release_tags_def List.map_filter_def)

lemma release_tags_Nil [simp]: "release_tags [] = []"
  by (simp add: release_tags_def)

lemma release_tags_Cons [simp]:
  "release_tags (e # t) = (case release_tag e of None \<Rightarrow> release_tags t | Some j \<Rightarrow> j # release_tags t)"
  by (simp add: release_tags_def split: option.split)

lemma release_tags_owner:
  assumes "lower ot = ''org'' \<or> truthy on"
  shows "release_tags (fst (create_github_release cfg rw ot on rn tg nm bd)) = [json_str tg]"
  using assms
  by (auto simp: create_github_release_def Let_def io_simps split: outcome.splits)

lemma copy_release_tags:
  assumes "lower ot = ''org'' \<or> truthy on"
  shows "release_tags (fst (copy_release cfg rw ot on rn gr)) = [json_str (gr_tag_name gr)]"
  using assms by (simp add: copy_release_def Let_def release_tags_owner)

lemma loop_trace:
  "(\<And>j. j < length rs \<Longrightarrow> release_answered (rws (i + j))) \<Longrightarrow>
   fst (copy_releases_loop cfg rws ot on rn i rs) =
     concat (map (\<lambda>(k, gr). fst (copy_release cfg (rws k) ot on rn gr)) (enumerate i rs))"
proof (induction rs arbitrary: i)
  case Nil
  then show ?case by simp
next
  case (Cons gr rest)
  have "release_answered (rws i)"
    using Cons.prems [of 0] by simp
  then obtain x where x: "snd (copy_release cfg (rws i) ot on rn gr) = Returns x"
    using copy_release_returns by blast
  have "fst (copy_releases_loop cfg rws ot on rn (Suc i) rest) =
     concat (map (\<lambda>(k, gr). fst (copy_release cfg (rws k) ot on rn gr)) (enumerate (Suc i) rest))"
    using Cons.prems by (intro Cons.IH) (metis Suc_less_eq add_Suc_shift length_Cons)
  with x show ?case
    by (simp add: io_simps)
qed

lemma loop_tags:
  assumes "lower ot = ''org'' \<or> truthy on"
  shows "(\<And>j. j < length rs \<Longrightarrow> release_answered (rws (i + j))) \<Longrightarrow>
   release_tags (fst (copy_releases_loop cfg rws ot on rn i rs)) =
     map (\<lambda>gr. json_str (gr_tag_name gr)) rs"
proof (induction rs arbitrary: i)
  case Nil
  then show ?case by simp
next
  case (Cons gr rest)
  have "release_answered (rws i)"
    using Cons.prems [of 0] by simp
  then obtain x where x: "snd (copy_release cfg (rws i) ot on rn gr) = Returns x"
    using copy_release_returns by blast
  have "release_tags (fst (copy_releases_loop cfg rws ot on rn (Suc i) rest)) =
     map (\<lambda>gr. json_str (gr_tag_name gr)) rest"
    using Cons.prems by (intro Cons.IH) (metis Suc_less_eq add_Suc_shift length_Cons)
  with x show ?case
    by (simp add: io_simps copy_release_tags [OF assms])
qed

text \<open>
  C4 (as amended). When the requests made for each release are answered, whatever the
  status codes of the answers, the loop over the releases calls the creation once for
  every release, in the order of the list, and returns; with an organization as owner or
  an owner name given, the trace holds one creation request per release, in that order.
  So a creation that the platform refuses does not keep the later releases from being
  attempted. A creation request that raises ends the loop.
\<close>

theorem every_release_attempted:
  assumes "\<forall>i < length rs. release_answered (rws i)"
  shows "snd (copy_releases_loop cfg rws owner_type owner_name repo_name 0 rs) = Returns ()
    \<and> fst (copy_releases_loop cfg rws owner_type owner_name repo_name 0 rs) =
        concat (map (\<lambda>(i, gr). fst (copy_release cfg (rws i) owner_type owner_name repo_name gr))
                  (enumerate 0 rs))
    \<and> (lower owner_type = ''org'' \<or> truthy owner_name \<longrightarrow>
         release_tags (fst (copy_releases_loop cfg rws owner_type owner_name repo_name 0 rs)) =
           map (\<lambda>gr. json_str (gr_tag_name gr)) rs)"
proof -
  have a: "release_answered (rws (0 + j))" if "j < length rs" for j
    using assms that by simp
  have one: "snd (copy_releases_loop cfg rws owner_type owner_name repo_name 0 rs) = Returns ()"
    using a by (rule loop_returns)
  have two: "fst (copy_releases_loop cfg rws owner_type owner_name repo_name 0 rs) =
        concat (map (\<lambda>(i, gr). fst (copy_release cfg (rws i) owner_type owner_name repo_name gr))
                  (enumerate 0 rs))"
    using a by (rule loop_trace)
  have three: "release_tags (fst (copy_releases_loop cfg rws owner_type owner_name repo_name 0 rs)) =
           map (\<lambda>gr. json_str (gr_tag_name gr)) rs"
    if "lower owner_type = ''org'' \<or> truthy owner_name"
    using that a by (rule loop_tags)
  from one two three show ?thesis
    by blast
qed

theorem every_release_attempted_witness:
  "rel_post (second_refused 1) = refusal 422 ''Validation Failed''
   \<and> release_tags (fst (copy_releases_loop example_config second_refused ''org'' (Some ''acme'')
                          ''proj-copy'' 0 three_releases))
       = [JStr ''v1'', JStr ''v2'', JStr ''v3'']
   \<and> snd (copy_releases_loop example_config second_refused ''org'' (Some ''acme'')
            ''proj-copy'' 0 three_releases) = Returns ()"
proof -
  have a: "\<forall>i < length three_releases. release_answered (second_refused i)"
    by (simp add: release_answered_def answered_def second_refused_def refusal_def answer_def)
  have b: "lower ''org'' = ''org'' \<or> truthy (Some ''acme'')"
    by (simp add: truthy_def)
  have c: "map (\<lambda>gr. json_str (gr_tag_name gr)) three_releases
      = [JStr ''v1'', JStr ''v2'', JStr ''v3'']"
    by (simp add: three_releases_def)
  note r = every_release_attempted [OF a, of example_config "''org''" "Some ''acme''"
        "''proj-copy''"]
  from r have s: "snd (copy_releases_loop example_config second_refused ''org'' (Some ''acme'')
            ''proj-copy'' 0 three_releases) = Returns ()"
    by blast
  from r b have "release_tags (fst (copy_releases_loop example_config second_refused ''org''
        (Some ''acme'') ''proj-copy'' 0 three_releases))
       = map (\<lambda>gr. json_str (gr_tag_name gr)) three_releases"
    by blast
  then have t: "release_tags (fst (copy_releases_loop example_config second_refused ''org''
        (Some ''acme'') ''proj-copy'' 0 three_releases)) = [JStr ''v1'', JStr ''v2'', JStr ''v3'']"
    unfolding c .
  have u: "rel_post (second_refused 1) = refusal 422 ''Validation Failed''"
    by (simp add: second_refused_def)
  from u s t show ?thesis
    by blast
qed

text \<open>The claim as it was stated fails: of three releases, the creation of the second
  raises, and the third is never attempted.\<close>

theorem release_exception_counterexample:
  "release_tags (fst (copy_releases_loop example_config second_raises ''org'' (Some ''acme'')
                        ''proj-copy'' 0 three_releases))
     = [JStr ''v1'', JStr ''v2'']
   \<and> snd (copy_releases_loop example_config second_raises ''org'' (Some ''acme'')
            ''proj-copy'' 0 three_releases) = Raises (OtherException ''Connection aborted'')
   \<and> length three_releases = 3"
  by (simp add: three_releases_def second_raises_def eval_defs)

section \<open>A batch of jobs in its trace and its results\<close>

lemma clone_requests_append [simp]: "clone_requests (a @ b) = clone_requests a @ clone_requests b"
  by (simp add: clone_requests_def List.map_filter_def)

lemma clone_requests_Nil [simp]: "clone_requests [] = []"
  by (simp add: clone_requests_def)

lemma clone_requests_Cons [simp]:
  "clone_requests (e # t) =
     (case clone_request e of None \<Rightarrow> clone_requests t | Some r \<Rightarrow> r # clone_requests t)"
  by (simp add: clone_requests_def split: option.split)

lemma clone_request_step: "clone_request e = Some r \<Longrightarrow> step_of e = Some 1"
  by (cases e) simp_all

lemma clone_requests_none:
  assumes "\<And>e. e \<in> set t \<Longrightarrow> step_of e \<noteq> Some 1"
  shows "clone_requests t = []"
  using assms
proof (induction t)
  case Nil
  then show ?case by simp
next
  case (Cons e t)
  have "clone_request e = None"
    using Cons.prems [of e] clone_request_step [of e] by (cases "clone_request e") auto
  then show ?case
    using Cons by simp
qed

lemma clone_requests_ordered: "ordered lo hi t \<Longrightarrow> 2 \<le> lo \<Longrightarrow> clone_requests t = []"
proof (rule clone_requests_none)
  fix e
  assume o: "ordered lo hi t" and lo: "2 \<le> lo" and e: "e \<in> set t"
  show "step_of e \<noteq> Some 1"
  proof
    assume "step_of e = Some 1"
    with e have "1 \<in> set (steps t)" by (rule step_mem_steps)
    with o lo show False by (fastforce simp: ordered_def)
  qed
qed

lemma clone_requests_clone:
  "clone_requests (fst (clone_from_gitlab cfg w u d)) = [(token_in_url cfg u, d)]"
  by (simp add: clone_from_gitlab_def token_in_url_def Let_def io_simps
      split: outcome.splits exn.splits)

lemma clone_requests_run:
  "clone_requests (fst (migrate_repository cfg w u ot on rn pv ds ts ars cr)) =
     [(token_in_url cfg u, local_clone_dir rn (clock w))]"
proof -
  obtain rest where eq: "fst (migrate_steps cfg w u ot on rn pv ds ts ars cr) =
      fst (clone_from_gitlab cfg w u (local_clone_dir rn (clock w))) @ rest"
    and rest: "ordered 2 6 rest"
    using steps_split by blast
  have c: "ordered 7 7 (fst (remove_local_clone w d s))" for d s
    by (rule ordered_only [OF cleanup_only]) simp_all
  show ?thesis
    unfolding migrate_repository_def fst_try_finally eq
    using clone_requests_ordered [OF rest] clone_requests_ordered [OF c]
    by (simp add: clone_requests_clone)
qed

lemma bulk_loop_snd:
  "snd (bulk_loop cfg worlds ot on pv ds ts ars cr i ((u, rn) # rest) results) =
   snd (bulk_loop cfg worlds ot on pv ds ts ars cr (Suc i) rest
          (dict_set results rn (job_status cfg (worlds i) u ot on rn pv ds ts ars cr)))"
  by (simp add: job_status_def split: prod.splits outcome.splits)

lemma bulk_loop_fst:
  "fst (bulk_loop cfg worlds ot on pv ds ts ars cr i ((u, rn) # rest) results) =
   Log INFO (''Starting migration for: '' @ u @ '' -> '' @ rn)
     # fst (migrate_repository cfg (worlds i) u ot on rn pv ds ts ars cr)
     @ (case snd (migrate_repository cfg (worlds i) u ot on rn pv ds ts ars cr) of
          Returns success \<Rightarrow> []
        | Raises e \<Rightarrow> [Log ERROR (''Unexpected error migrating '' @ u @ '': '' @ exn_str e)])
     @ fst (bulk_loop cfg worlds ot on pv ds ts ars cr (Suc i) rest
              (dict_set results rn (job_status cfg (worlds i) u ot on rn pv ds ts ars cr)))"
  by (simp add: job_status_def split: prod.splits outcome.splits)

declare bulk_loop.simps(2) [simp del]

lemma bulk_loop_clone_requests:
  "clone_requests (fst (bulk_loop cfg worlds ot on pv ds ts ars cr i jobs results)) =
     map (\<lambda>(k, (u, rn)). (token_in_url cfg u, local_clone_dir rn (clock (worlds k))))
       (enumerate i jobs)"
proof (induction jobs arbitrary: i results)
  case Nil
  then show ?case by simp
next
  case (Cons job rest)
  obtain u rn where job: "job = (u, rn)" by (cases job)
  show ?case
    unfolding job bulk_loop_fst
    by (simp add: clone_requests_run Cons.IH split: outcome.split)
qed

lemma dict_set_new: "k \<notin> fst ` set r \<Longrightarrow> dict_set r k v = r @ [(k, v)]"
  by (induction r) auto


lemma bulk_loop_distinct:
  "distinct (map snd jobs) \<Longrightarrow> fst ` set results \<inter> snd ` set jobs = {} \<Longrightarrow>
   snd (bulk_loop cfg worlds ot on pv ds ts ars cr i jobs results) =
     results @ map (\<lambda>(k, (u, rn)). (rn, job_status cfg (worlds k) u ot on rn pv ds ts ars cr))
                 (enumerate i jobs)"
proof (induction jobs arbitrary: i results)
  case Nil
  then show ?case by simp
next
  case (Cons job rest)
  obtain u rn where job: "job = (u, rn)" by (cases job)
  let ?st = "job_status cfg (worlds i) u ot on rn pv ds ts ars cr"
  have new: "dict_set results rn ?st = results @ [(rn, ?st)]"
    using Cons.prems(2) unfolding job by (intro dict_set_new) auto
  have d: "distinct (map snd rest)"
    using Cons.prems(1) by simp
  have i: "fst ` set (results @ [(rn, ?st)]) \<inter> snd ` set rest = {}"
    using Cons.prems unfolding job by auto
  show ?case
    unfolding job bulk_loop_snd new Cons.IH [OF d i]
    by simp
qed




lemma two_worlds_status:
  "job_status example_config (two_worlds 0) u ''user'' None rn True [] None True True = ''Failed''"
  "job_status example_config (two_worlds (Suc 0)) u ''user'' None rn True [] None True True
     = ''Success''"
  by (simp_all add: job_status_def two_worlds_def eval_defs)

section \<open>C3: the results of a batch\<close>

text \<open>
  C3 (as amended). For a batch of N jobs whose target names are pairwise distinct, every
  job is run, in the order of the list, whatever the earlier jobs did, and the returned
  dictionary has exactly N entries, in that order: entry K is the target name of job K
  with \<open>Success\<close>, \<open>Failed\<close> or \<open>Exception\<close> as the job returned \<open>True\<close>, returned
  \<open>False\<close> or raised. (The dictionary is keyed by target name: jobs that share a
  target name share one entry, which holds the status of the last of them.)
\<close>

theorem batch_results_distinct_names:
  assumes "distinct (map snd repo_mapping)"
  shows "snd (bulk_migrate_repositories cfg worlds repo_mapping owner_type owner_name priv descr
                team_slug apply_repo_settings copy_releases) =
           map (\<lambda>(k, (u, rn)). (rn, job_status cfg (worlds k) u owner_type owner_name rn priv descr
                                      team_slug apply_repo_settings copy_releases))
             (enumerate 0 repo_mapping)
    \<and> length (snd (bulk_migrate_repositories cfg worlds repo_mapping owner_type owner_name priv
                       descr team_slug apply_repo_settings copy_releases)) = length repo_mapping
    \<and> clone_requests (fst (bulk_migrate_repositories cfg worlds repo_mapping owner_type
                              owner_name priv descr team_slug apply_repo_settings copy_releases)) =
           map (\<lambda>(k, (u, rn)). (token_in_url cfg u, local_clone_dir rn (clock (worlds k))))
             (enumerate 0 repo_mapping)
    \<and> (\<forall>K < length repo_mapping.
          snd (migrate_repository cfg (worlds K) (fst (repo_mapping ! K)) owner_type owner_name
                 (snd (repo_mapping ! K)) priv descr team_slug apply_repo_settings copy_releases)
            = Returns False \<longrightarrow>
          snd (bulk_migrate_repositories cfg worlds repo_mapping owner_type owner_name priv descr
                 team_slug apply_repo_settings copy_releases) ! K
            = (snd (repo_mapping ! K), ''Failed''))"
proof -
  let ?res = "snd (bulk_migrate_repositories cfg worlds repo_mapping owner_type owner_name priv
                 descr team_slug apply_repo_settings copy_releases)"
  let ?st = "\<lambda>(k, (u, rn)). (rn, job_status cfg (worlds k) u owner_type owner_name rn priv descr
                                      team_slug apply_repo_settings copy_releases)"
  have res: "?res = map ?st (enumerate 0 repo_mapping)"
    using bulk_loop_distinct [OF assms, of "[]" cfg worlds owner_type owner_name priv descr
        team_slug apply_repo_settings copy_releases 0]
    by (simp add: bulk_migrate_repositories_def)
  then have len: "length ?res = length repo_mapping"
    by simp
  have all: "clone_requests (fst (bulk_migrate_repositories cfg worlds repo_mapping owner_type
                              owner_name priv descr team_slug apply_repo_settings copy_releases)) =
           map (\<lambda>(k, (u, rn)). (token_in_url cfg u, local_clone_dir rn (clock (worlds k))))
             (enumerate 0 repo_mapping)"
    by (simp add: bulk_migrate_repositories_def bulk_loop_clone_requests)
  have failed: "?res ! K = (snd (repo_mapping ! K), ''Failed'')"
    if "K < length repo_mapping"
      and "snd (migrate_repository cfg (worlds K) (fst (repo_mapping ! K)) owner_type owner_name
                 (snd (repo_mapping ! K)) priv descr team_slug apply_repo_settings copy_releases)
            = Returns False" for K
  proof -
    have "?res ! K = ?st (K, repo_mapping ! K)"
      unfolding res using that(1) by (simp add: nth_enumerate_eq)
    then show ?thesis
      using that(2) by (cases "repo_mapping ! K") (simp add: job_status_def)
  qed
  from res len all failed show ?thesis
    by blast
qed

theorem batch_results_distinct_names_witness:
  "distinct (map snd [(''https://gitlab.com/a/one.git'', ''one''),
                      (''https://gitlab.com/b/two.git'', ''two'')])
   \<and> snd (bulk_migrate_repositories example_config two_worlds
            [(''https://gitlab.com/a/one.git'', ''one''), (''https://gitlab.com/b/two.git'', ''two'')]
            ''user'' None True [] None True True)
       = [(''one'', ''Failed''), (''two'', ''Success'')]"
proof -
  have d: "distinct (map snd [(''https://gitlab.com/a/one.git'', ''one''),
                      (''https://gitlab.com/b/two.git'', ''two'')])"
    by simp
  show ?thesis
    using d batch_results_distinct_names [OF d, of example_config two_worlds "''user''" None True
        "[]" None True True]
    by (simp add: two_worlds_status)
qed

text \<open>The claim as it was stated fails: of two jobs with the same target name the first
  fails and the second succeeds; the dictionary has one entry, and it says
  \<open>Success\<close>.\<close>

theorem batch_duplicate_names_counterexample:
  "snd (migrate_repository example_config (two_worlds 0) ''https://gitlab.com/a/one.git''
          ''user'' None ''proj-copy'' True [] None True True) = Returns False
   \<and> snd (bulk_migrate_repositories example_config two_worlds
            [(''https://gitlab.com/a/one.git'', ''proj-copy''),
             (''https://gitlab.com/b/two.git'', ''proj-copy'')]
            ''user'' None True [] None True True)
       = [(''proj-copy'', ''Success'')]"
proof -
  have a: "snd (migrate_repository example_config (two_worlds 0) ''https://gitlab.com/a/one.git''
          ''user'' None ''proj-copy'' True [] None True True) = Returns False"
    by (simp add: two_worlds_def eval_defs)
  have b: "snd (bulk_migrate_repositories example_config two_worlds
            [(''https://gitlab.com/a/one.git'', ''proj-copy''),
             (''https://gitlab.com/b/two.git'', ''proj-copy'')]
            ''user'' None True [] None True True)
       = [(''proj-copy'', ''Success'')]"
    unfolding bulk_migrate_repositories_def bulk_loop_snd two_worlds_status
    by simp
  from a b show ?thesis
    by blast
qed

section \<open>C8: an exception in one job\<close>



end
